theory Spec2Isabelle
  imports Complex_Main "HOL-Library.Sublist" "HOL-Library.Code_Target_Nat"
begin

section \<open>JavaScript values\<close>

subsection \<open>Strings\<close>

text \<open>
  A string is a sequence of UTF-16 code units, each a number below 65536; \<open>str\<close> writes
  an ASCII literal. \<^verbatim>\<open>s.includes(q)\<close> holds when \<open>q\<close> occurs in \<open>s\<close> as a contiguous run
  of code units.
\<close>

type_synonym jsstring = "nat list"

definition str :: "string \<Rightarrow> jsstring" where
  "str s = map of_char s"

fun includes_str :: "jsstring \<Rightarrow> jsstring \<Rightarrow> bool" where
  "includes_str [] q = (q = [])"
| "includes_str (c # cs) q = (prefix q (c # cs) \<or> includes_str cs q)"

subsection \<open>\<^verbatim>\<open>toLowerCase\<close>\<close>

text \<open>
  \<^verbatim>\<open>String.prototype.toLowerCase\<close> reads the code units as code points (a high surrogate
  followed by a low one is one code point, any other unit stands for itself), lower-cases
  the code points by the default case conversion of Unicode, and writes the result
  back as code units.
\<close>

definition isHighSurrogate :: "nat \<Rightarrow> bool" where
  "isHighSurrogate c = (55296 \<le> c \<and> c \<le> 56319)"

definition isLowSurrogate :: "nat \<Rightarrow> bool" where
  "isLowSurrogate c = (56320 \<le> c \<and> c \<le> 57343)"

fun StringToCodePoints :: "jsstring \<Rightarrow> nat list" where
  "StringToCodePoints (h # l # cs) =
     (if isHighSurrogate h \<and> isLowSurrogate l
      then (65536 + (h - 55296) * 1024 + (l - 56320)) # StringToCodePoints cs
      else h # StringToCodePoints (l # cs))"
| "StringToCodePoints cs = cs"

definition CodePointToUnits :: "nat \<Rightarrow> jsstring" where
  "CodePointToUnits c =
     (if c < 65536 then [c]
      else [55296 + (c - 65536) div 1024, 56320 + (c - 65536) mod 1024])"

definition CodePointsToString :: "nat list \<Rightarrow> jsstring" where
  "CodePointsToString cps = concat (map CodePointToUnits cps)"

text \<open>
  The tables of Unicode 14. A lower-case rule \<open>(lo, hi, step, target)\<close> maps every
  \<open>step\<close>-th code point from \<open>lo\<close> to \<open>hi\<close>, the first of them to \<open>target\<close> and
  the others at the same distance; the letters A to Z are handled before the table is
  consulted. The two lists of ranges are the code points with the properties Cased
  and Case_Ignorable.
\<close>

definition lowerRules :: "(nat \<times> nat \<times> nat \<times> nat) list" where
  "lowerRules =
     [
      (192, 214, 1, 224), (216, 222, 1, 248), (256, 302, 2, 257), (306, 310, 2, 307),
      (313, 327, 2, 314), (330, 374, 2, 331), (376, 376, 1, 255), (377, 381, 2, 378),
      (385, 385, 1, 595), (386, 388, 2, 387), (390, 390, 1, 596), (391, 391, 1, 392),
      (393, 394, 1, 598), (395, 395, 1, 396), (398, 398, 1, 477), (399, 399, 1, 601),
      (400, 400, 1, 603), (401, 401, 1, 402), (403, 403, 1, 608), (404, 404, 1, 611),
      (406, 406, 1, 617), (407, 407, 1, 616), (408, 408, 1, 409), (412, 412, 1, 623),
      (413, 413, 1, 626), (415, 415, 1, 629), (416, 420, 2, 417), (422, 422, 1, 640),
      (423, 423, 1, 424), (425, 425, 1, 643), (428, 428, 1, 429), (430, 430, 1, 648),
      (431, 431, 1, 432), (433, 434, 1, 650), (435, 437, 2, 436), (439, 439, 1, 658),
      (440, 440, 1, 441), (444, 444, 1, 445), (452, 452, 1, 454), (453, 453, 1, 454),
      (455, 455, 1, 457), (456, 456, 1, 457), (458, 458, 1, 460), (459, 475, 2, 460),
      (478, 494, 2, 479), (497, 497, 1, 499), (498, 500, 2, 499), (502, 502, 1, 405),
      (503, 503, 1, 447), (504, 542, 2, 505), (544, 544, 1, 414), (546, 562, 2, 547),
      (570, 570, 1, 11365), (571, 571, 1, 572), (573, 573, 1, 410), (574, 574, 1, 11366),
      (577, 577, 1, 578), (579, 579, 1, 384), (580, 580, 1, 649), (581, 581, 1, 652),
      (582, 590, 2, 583), (880, 882, 2, 881), (886, 886, 1, 887), (895, 895, 1, 1011),
      (902, 902, 1, 940), (904, 906, 1, 941), (908, 908, 1, 972), (910, 911, 1, 973),
      (913, 929, 1, 945), (931, 939, 1, 963), (975, 975, 1, 983), (984, 1006, 2, 985),
      (1012, 1012, 1, 952), (1015, 1015, 1, 1016), (1017, 1017, 1, 1010), (1018, 1018, 1, 1019),
      (1021, 1023, 1, 891), (1024, 1039, 1, 1104), (1040, 1071, 1, 1072), (1120, 1152, 2, 1121),
      (1162, 1214, 2, 1163), (1216, 1216, 1, 1231), (1217, 1229, 2, 1218),
      (1232, 1326, 2, 1233), (1329, 1366, 1, 1377), (4256, 4293, 1, 11520),
      (4295, 4295, 1, 11559), (4301, 4301, 1, 11565), (5024, 5103, 1, 43888),
      (5104, 5109, 1, 5112), (7312, 7354, 1, 4304), (7357, 7359, 1, 4349),
      (7680, 7828, 2, 7681), (7838, 7838, 1, 223), (7840, 7934, 2, 7841), (7944, 7951, 1, 7936),
      (7960, 7965, 1, 7952), (7976, 7983, 1, 7968), (7992, 7999, 1, 7984),
      (8008, 8013, 1, 8000), (8025, 8031, 2, 8017), (8040, 8047, 1, 8032),
      (8072, 8079, 1, 8064), (8088, 8095, 1, 8080), (8104, 8111, 1, 8096),
      (8120, 8121, 1, 8112), (8122, 8123, 1, 8048), (8124, 8124, 1, 8115),
      (8136, 8139, 1, 8050), (8140, 8140, 1, 8131), (8152, 8153, 1, 8144),
      (8154, 8155, 1, 8054), (8168, 8169, 1, 8160), (8170, 8171, 1, 8058),
      (8172, 8172, 1, 8165), (8184, 8185, 1, 8056), (8186, 8187, 1, 8060),
      (8188, 8188, 1, 8179), (8486, 8486, 1, 969), (8490, 8490, 1, 107), (8491, 8491, 1, 229),
      (8498, 8498, 1, 8526), (8544, 8559, 1, 8560), (8579, 8579, 1, 8580),
      (9398, 9423, 1, 9424), (11264, 11311, 1, 11312), (11360, 11360, 1, 11361),
      (11362, 11362, 1, 619), (11363, 11363, 1, 7549), (11364, 11364, 1, 637),
      (11367, 11371, 2, 11368), (11373, 11373, 1, 593), (11374, 11374, 1, 625),
      (11375, 11375, 1, 592), (11376, 11376, 1, 594), (11378, 11378, 1, 11379),
      (11381, 11381, 1, 11382), (11390, 11391, 1, 575), (11392, 11490, 2, 11393),
      (11499, 11501, 2, 11500), (11506, 11506, 1, 11507), (42560, 42604, 2, 42561),
      (42624, 42650, 2, 42625), (42786, 42798, 2, 42787), (42802, 42862, 2, 42803),
      (42873, 42875, 2, 42874), (42877, 42877, 1, 7545), (42878, 42886, 2, 42879),
      (42891, 42891, 1, 42892), (42893, 42893, 1, 613), (42896, 42898, 2, 42897),
      (42902, 42920, 2, 42903), (42922, 42922, 1, 614), (42923, 42923, 1, 604),
      (42924, 42924, 1, 609), (42925, 42925, 1, 620), (42926, 42926, 1, 618),
      (42928, 42928, 1, 670), (42929, 42929, 1, 647), (42930, 42930, 1, 669),
      (42931, 42931, 1, 43859), (42932, 42946, 2, 42933), (42948, 42948, 1, 42900),
      (42949, 42949, 1, 642), (42950, 42950, 1, 7566), (42951, 42953, 2, 42952),
      (42960, 42960, 1, 42961), (42966, 42968, 2, 42967), (42997, 42997, 1, 42998),
      (65313, 65338, 1, 65345), (66560, 66599, 1, 66600), (66736, 66771, 1, 66776),
      (66928, 66938, 1, 66967), (66940, 66954, 1, 66979), (66956, 66962, 1, 66995),
      (66964, 66965, 1, 67003), (68736, 68786, 1, 68800), (71840, 71871, 1, 71872),
      (93760, 93791, 1, 93792), (125184, 125217, 1, 125218)]"

definition casedRanges :: "(nat \<times> nat) list" where
  "casedRanges =
     [
      (65, 90), (97, 122), (170, 170), (181, 181), (186, 186), (192, 214), (216, 246),
      (248, 442), (444, 447), (452, 659), (661, 696), (704, 705), (736, 740), (837, 837),
      (880, 883), (886, 887), (890, 893), (895, 895), (902, 902), (904, 906), (908, 908),
      (910, 929), (931, 1013), (1015, 1153), (1162, 1327), (1329, 1366), (1376, 1416),
      (4256, 4293), (4295, 4295), (4301, 4301), (4304, 4346), (4349, 4351), (5024, 5109),
      (5112, 5117), (7296, 7304), (7312, 7354), (7357, 7359), (7424, 7615), (7680, 7957),
      (7960, 7965), (7968, 8005), (8008, 8013), (8016, 8023), (8025, 8025), (8027, 8027),
      (8029, 8029), (8031, 8061), (8064, 8116), (8118, 8124), (8126, 8126), (8130, 8132),
      (8134, 8140), (8144, 8147), (8150, 8155), (8160, 8172), (8178, 8180), (8182, 8188),
      (8305, 8305), (8319, 8319), (8336, 8348), (8450, 8450), (8455, 8455), (8458, 8467),
      (8469, 8469), (8473, 8477), (8484, 8484), (8486, 8486), (8488, 8488), (8490, 8493),
      (8495, 8500), (8505, 8505), (8508, 8511), (8517, 8521), (8526, 8526), (8544, 8575),
      (8579, 8580), (9398, 9449), (11264, 11492), (11499, 11502), (11506, 11507),
      (11520, 11557), (11559, 11559), (11565, 11565), (42560, 42605), (42624, 42653),
      (42786, 42887), (42891, 42894), (42896, 42954), (42960, 42961), (42963, 42963),
      (42965, 42969), (42997, 42998), (43000, 43002), (43824, 43866), (43868, 43880),
      (43888, 43967), (64256, 64262), (64275, 64279), (65313, 65338), (65345, 65370),
      (66560, 66639), (66736, 66771), (66776, 66811), (66928, 66938), (66940, 66954),
      (66956, 66962), (66964, 66965), (66967, 66977), (66979, 66993), (66995, 67001),
      (67003, 67004), (67456, 67456), (67459, 67461), (67463, 67504), (67506, 67514),
      (68736, 68786), (68800, 68850), (71840, 71903), (93760, 93823), (119808, 119892),
      (119894, 119964), (119966, 119967), (119970, 119970), (119973, 119974), (119977, 119980),
      (119982, 119993), (119995, 119995), (119997, 120003), (120005, 120069), (120071, 120074),
      (120077, 120084), (120086, 120092), (120094, 120121), (120123, 120126), (120128, 120132),
      (120134, 120134), (120138, 120144), (120146, 120485), (120488, 120512), (120514, 120538),
      (120540, 120570), (120572, 120596), (120598, 120628), (120630, 120654), (120656, 120686),
      (120688, 120712), (120714, 120744), (120746, 120770), (120772, 120779), (122624, 122633),
      (122635, 122654), (125184, 125251), (127280, 127305), (127312, 127337), (127344, 127369)]"

definition caseIgnorableRanges :: "(nat \<times> nat) list" where
  "caseIgnorableRanges =
     [
      (39, 39), (46, 46), (58, 58), (94, 94), (96, 96), (168, 168), (173, 173), (175, 175),
      (180, 180), (183, 184), (688, 879), (884, 885), (890, 890), (900, 901), (903, 903),
      (1155, 1161), (1369, 1369), (1375, 1375), (1425, 1469), (1471, 1471), (1473, 1474),
      (1476, 1477), (1479, 1479), (1524, 1524), (1536, 1541), (1552, 1562), (1564, 1564),
      (1600, 1600), (1611, 1631), (1648, 1648), (1750, 1757), (1759, 1768), (1770, 1773),
      (1807, 1807), (1809, 1809), (1840, 1866), (1958, 1968), (2027, 2037), (2042, 2042),
      (2045, 2045), (2070, 2093), (2137, 2139), (2184, 2184), (2192, 2193), (2200, 2207),
      (2249, 2306), (2362, 2362), (2364, 2364), (2369, 2376), (2381, 2381), (2385, 2391),
      (2402, 2403), (2417, 2417), (2433, 2433), (2492, 2492), (2497, 2500), (2509, 2509),
      (2530, 2531), (2558, 2558), (2561, 2562), (2620, 2620), (2625, 2626), (2631, 2632),
      (2635, 2637), (2641, 2641), (2672, 2673), (2677, 2677), (2689, 2690), (2748, 2748),
      (2753, 2757), (2759, 2760), (2765, 2765), (2786, 2787), (2810, 2815), (2817, 2817),
      (2876, 2876), (2879, 2879), (2881, 2884), (2893, 2893), (2901, 2902), (2914, 2915),
      (2946, 2946), (3008, 3008), (3021, 3021), (3072, 3072), (3076, 3076), (3132, 3132),
      (3134, 3136), (3142, 3144), (3146, 3149), (3157, 3158), (3170, 3171), (3201, 3201),
      (3260, 3260), (3263, 3263), (3270, 3270), (3276, 3277), (3298, 3299), (3328, 3329),
      (3387, 3388), (3393, 3396), (3405, 3405), (3426, 3427), (3457, 3457), (3530, 3530),
      (3538, 3540), (3542, 3542), (3633, 3633), (3636, 3642), (3654, 3662), (3761, 3761),
      (3764, 3772), (3782, 3782), (3784, 3789), (3864, 3865), (3893, 3893), (3895, 3895),
      (3897, 3897), (3953, 3966), (3968, 3972), (3974, 3975), (3981, 3991), (3993, 4028),
      (4038, 4038), (4141, 4144), (4146, 4151), (4153, 4154), (4157, 4158), (4184, 4185),
      (4190, 4192), (4209, 4212), (4226, 4226), (4229, 4230), (4237, 4237), (4253, 4253),
      (4348, 4348), (4957, 4959), (5906, 5908), (5938, 5939), (5970, 5971), (6002, 6003),
      (6068, 6069), (6071, 6077), (6086, 6086), (6089, 6099), (6103, 6103), (6109, 6109),
      (6155, 6159), (6211, 6211), (6277, 6278), (6313, 6313), (6432, 6434), (6439, 6440),
      (6450, 6450), (6457, 6459), (6679, 6680), (6683, 6683), (6742, 6742), (6744, 6750),
      (6752, 6752), (6754, 6754), (6757, 6764), (6771, 6780), (6783, 6783), (6823, 6823),
      (6832, 6862), (6912, 6915), (6964, 6964), (6966, 6970), (6972, 6972), (6978, 6978),
      (7019, 7027), (7040, 7041), (7074, 7077), (7080, 7081), (7083, 7085), (7142, 7142),
      (7144, 7145), (7149, 7149), (7151, 7153), (7212, 7219), (7222, 7223), (7288, 7293),
      (7376, 7378), (7380, 7392), (7394, 7400), (7405, 7405), (7412, 7412), (7416, 7417),
      (7468, 7530), (7544, 7544), (7579, 7679), (8125, 8125), (8127, 8129), (8141, 8143),
      (8157, 8159), (8173, 8175), (8189, 8190), (8203, 8207), (8216, 8217), (8228, 8228),
      (8231, 8231), (8234, 8238), (8288, 8292), (8294, 8303), (8305, 8305), (8319, 8319),
      (8336, 8348), (8400, 8432), (11388, 11389), (11503, 11505), (11631, 11631),
      (11647, 11647), (11744, 11775), (11823, 11823), (12293, 12293), (12330, 12333),
      (12337, 12341), (12347, 12347), (12441, 12446), (12540, 12542), (40981, 40981),
      (42232, 42237), (42508, 42508), (42607, 42610), (42612, 42621), (42623, 42623),
      (42652, 42655), (42736, 42737), (42752, 42785), (42864, 42864), (42888, 42890),
      (42994, 42996), (43000, 43001), (43010, 43010), (43014, 43014), (43019, 43019),
      (43045, 43046), (43052, 43052), (43204, 43205), (43232, 43249), (43263, 43263),
      (43302, 43309), (43335, 43345), (43392, 43394), (43443, 43443), (43446, 43449),
      (43452, 43453), (43471, 43471), (43493, 43494), (43561, 43566), (43569, 43570),
      (43573, 43574), (43587, 43587), (43596, 43596), (43632, 43632), (43644, 43644),
      (43696, 43696), (43698, 43700), (43703, 43704), (43710, 43711), (43713, 43713),
      (43741, 43741), (43756, 43757), (43763, 43764), (43766, 43766), (43867, 43871),
      (43881, 43883), (44005, 44005), (44008, 44008), (44013, 44013), (64286, 64286),
      (64434, 64450), (65024, 65039), (65043, 65043), (65056, 65071), (65106, 65106),
      (65109, 65109), (65279, 65279), (65287, 65287), (65294, 65294), (65306, 65306),
      (65342, 65342), (65344, 65344), (65392, 65392), (65438, 65439), (65507, 65507),
      (65529, 65531), (66045, 66045), (66272, 66272), (66422, 66426), (67456, 67461),
      (67463, 67504), (67506, 67514), (68097, 68099), (68101, 68102), (68108, 68111),
      (68152, 68154), (68159, 68159), (68325, 68326), (68900, 68903), (69291, 69292),
      (69446, 69456), (69506, 69509), (69633, 69633), (69688, 69702), (69744, 69744),
      (69747, 69748), (69759, 69761), (69811, 69814), (69817, 69818), (69821, 69821),
      (69826, 69826), (69837, 69837), (69888, 69890), (69927, 69931), (69933, 69940),
      (70003, 70003), (70016, 70017), (70070, 70078), (70089, 70092), (70095, 70095),
      (70191, 70193), (70196, 70196), (70198, 70199), (70206, 70206), (70367, 70367),
      (70371, 70378), (70400, 70401), (70459, 70460), (70464, 70464), (70502, 70508),
      (70512, 70516), (70712, 70719), (70722, 70724), (70726, 70726), (70750, 70750),
      (70835, 70840), (70842, 70842), (70847, 70848), (70850, 70851), (71090, 71093),
      (71100, 71101), (71103, 71104), (71132, 71133), (71219, 71226), (71229, 71229),
      (71231, 71232), (71339, 71339), (71341, 71341), (71344, 71349), (71351, 71351),
      (71453, 71455), (71458, 71461), (71463, 71467), (71727, 71735), (71737, 71738),
      (71995, 71996), (71998, 71998), (72003, 72003), (72148, 72151), (72154, 72155),
      (72160, 72160), (72193, 72202), (72243, 72248), (72251, 72254), (72263, 72263),
      (72273, 72278), (72281, 72283), (72330, 72342), (72344, 72345), (72752, 72758),
      (72760, 72765), (72767, 72767), (72850, 72871), (72874, 72880), (72882, 72883),
      (72885, 72886), (73009, 73014), (73018, 73018), (73020, 73021), (73023, 73029),
      (73031, 73031), (73104, 73105), (73109, 73109), (73111, 73111), (73459, 73460),
      (78896, 78904), (92912, 92916), (92976, 92982), (92992, 92995), (94031, 94031),
      (94095, 94111), (94176, 94177), (94179, 94180), (110576, 110579), (110581, 110587),
      (110589, 110590), (113821, 113822), (113824, 113827), (118528, 118573), (118576, 118598),
      (119143, 119145), (119155, 119170), (119173, 119179), (119210, 119213), (119362, 119364),
      (121344, 121398), (121403, 121452), (121461, 121461), (121476, 121476), (121499, 121503),
      (121505, 121519), (122880, 122886), (122888, 122904), (122907, 122913), (122915, 122916),
      (122918, 122922), (123184, 123197), (123566, 123566), (123628, 123631), (125136, 125142),
      (125252, 125259), (127995, 127999), (917505, 917505), (917536, 917631), (917760, 917999)]"

fun inRule :: "nat \<Rightarrow> nat \<times> nat \<times> nat \<times> nat \<Rightarrow> bool" where
  "inRule c (lo, hi, step, target) = (lo \<le> c \<and> c \<le> hi \<and> (c - lo) mod step = 0)"

fun inRange :: "nat \<Rightarrow> nat \<times> nat \<Rightarrow> bool" where
  "inRange c (lo, hi) = (lo \<le> c \<and> c \<le> hi)"

definition asciiLower :: "nat \<Rightarrow> nat" where
  "asciiLower c = (if 65 \<le> c \<and> c \<le> 90 then c + 32 else c)"

definition simpleLowercase :: "nat \<Rightarrow> nat" where
  "simpleLowercase c =
     (if c < 128 then asciiLower c
      else (case find (inRule c) lowerRules of
              None \<Rightarrow> c
            | Some (lo, hi, step, target) \<Rightarrow> target + (c - lo)))"

definition isCased :: "nat \<Rightarrow> bool" where
  "isCased c = list_ex (inRange c) casedRanges"

definition isCaseIgnorable :: "nat \<Rightarrow> bool" where
  "isCaseIgnorable c = list_ex (inRange c) caseIgnorableRanges"

text \<open>
  The two exceptions of the conversion that do not depend on the language. A capital
  sigma (931) becomes the final sigma (962) when a cased letter comes before it and
  none after it, case-ignorable code points in between being skipped, and the small
  sigma (963) otherwise. The capital I with a dot above (304) becomes two code
  points. \<open>seen\<close> holds the code points already read, the nearest first.
\<close>

definition followedByCased :: "nat list \<Rightarrow> bool" where
  "followedByCased cs =
     (case dropWhile isCaseIgnorable cs of [] \<Rightarrow> False | c # rest \<Rightarrow> isCased c)"

definition isFinalSigma :: "nat list \<Rightarrow> nat list \<Rightarrow> bool" where
  "isFinalSigma seen rest = (followedByCased seen \<and> \<not> followedByCased rest)"

fun lowerCodePoints :: "nat list \<Rightarrow> nat list \<Rightarrow> nat list" where
  "lowerCodePoints seen [] = []"
| "lowerCodePoints seen (c # cs) =
     (if c = 931 then [if isFinalSigma seen cs then 962 else 963]
      else if c = 304 then [105, 775]
      else [simpleLowercase c]) @ lowerCodePoints (c # seen) cs"

definition toLowerCase :: "jsstring \<Rightarrow> jsstring" where
  "toLowerCase s = CodePointsToString (lowerCodePoints [] (StringToCodePoints s))"

subsection \<open>Numbers\<close>

text \<open>
  A JavaScript number is a double: a finite value, one of the two infinities, or NaN.
  The order of the finite doubles is the order of the reals they denote (the two zeros
  compare equal), so a finite number is written as the real it denotes.
\<close>

datatype jsnum = NaN | NegInf | Fin real | PosInf

text \<open>\<^verbatim>\<open>a <= b\<close> and \<^verbatim>\<open>a >= b\<close> on numbers: false as soon as one side is NaN.\<close>

fun js_le :: "jsnum \<Rightarrow> jsnum \<Rightarrow> bool" where
  "js_le NaN b = False"
| "js_le a NaN = False"
| "js_le NegInf b = True"
| "js_le a PosInf = True"
| "js_le (Fin x) (Fin y) = (x \<le> y)"
| "js_le PosInf b = False"
| "js_le a NegInf = False"

definition js_ge :: "jsnum \<Rightarrow> jsnum \<Rightarrow> bool" where
  "js_ge a b = js_le b a"

fun js_negate :: "jsnum \<Rightarrow> jsnum" where
  "js_negate NaN = NaN"
| "js_negate NegInf = PosInf"
| "js_negate (Fin x) = Fin (- x)"
| "js_negate PosInf = NegInf"

text \<open>
  Rounding to the nearest double, ties to the even mantissa. \<open>roundHalfEven n d\<close> is the
  integer nearest to \<open>n / d\<close>. \<open>roundToDouble p q\<close> is the double nearest to \<open>p / q\<close>, for
  \<open>q\<close> positive: the mantissa has 53 bits, or fewer below \<open>2\<^sup>-\<^sup>1\<^sup>0\<^sup>2\<^sup>2\<close>, where doubles are
  \<open>2\<^sup>-\<^sup>1\<^sup>0\<^sup>7\<^sup>4\<close> apart; from \<open>2\<^sup>1\<^sup>0\<^sup>2\<^sup>4\<close> on the result is infinite.
\<close>

fun bitLength :: "nat \<Rightarrow> nat" where
  "bitLength n = (if n = 0 then 0 else Suc (bitLength (n div 2)))"

declare bitLength.simps [simp del]

definition roundHalfEven :: "nat \<Rightarrow> nat \<Rightarrow> nat" where
  "roundHalfEven n d =
     (let q = n div d; r = n mod d
      in if 2 * r < d then q else if d < 2 * r then q + 1 else if even q then q else q + 1)"

definition scaleBy :: "nat \<Rightarrow> nat \<Rightarrow> int \<Rightarrow> nat \<times> nat" where
  "scaleBy p q e = (if e < 0 then (p * 2 ^ nat (- e), q) else (p, q * 2 ^ nat e))"

definition roundToDouble :: "nat \<Rightarrow> nat \<Rightarrow> jsnum" where
  "roundToDouble p q =
     (if p = 0 then Fin 0
      else
        (let e0 = int (bitLength p) - int (bitLength q) - 53;
             (n0, d0) = scaleBy p q e0;
             e1 = (if 2 ^ 53 * d0 \<le> n0 then e0 + 1 else e0);
             e = max e1 (- 1074);
             (n, d) = scaleBy p q e;
             m = roundHalfEven n d
         in if 0 \<le> e then
              (if 2 ^ 1024 \<le> m * 2 ^ nat e then PosInf else Fin (real (m * 2 ^ nat e)))
            else Fin (real m / 2 ^ nat (- e))))"

subsection \<open>\<^verbatim>\<open>Number(v)\<close>: the language's ToNumber\<close>

text \<open>
  The interface \<^verbatim>\<open>Event\<close> declares \<^verbatim>\<open>durationHours\<close> and \<^verbatim>\<open>costPerPerson\<close> as
  numbers, but \<^verbatim>\<open>loadEvents\<close> copies them unchanged from the untyped records of the
  persistence layer and \<^verbatim>\<open>filterEvents\<close> passes them through \<^verbatim>\<open>Number(...)\<close>. The
  model therefore admits what such a record can hold in a numeric column: a number,
  a text, null, a boolean, or nothing at all (undefined).
\<close>

datatype jsval = JUndefined | JNull | JBoolean bool | JNumber jsnum | JString jsstring

text \<open>
  On a text, ToNumber strips white space and line terminators, reads the empty text as
  0, and otherwise accepts exactly a numeric literal: a binary, octal or hexadecimal
  integer without sign, or an optionally signed decimal literal (\<^verbatim>\<open>Infinity\<close>, digits
  with an optional fraction and an optional exponent). Anything else is NaN. The
  value of the literal is rounded to the nearest double.
\<close>

definition isWhiteSpace :: "nat \<Rightarrow> bool" where
  "isWhiteSpace c =
     (c \<in> set [9, 10, 11, 12, 13, 32, 160, 5760, 8232, 8233, 8239, 8287, 12288, 65279] \<or>
      (8192 \<le> c \<and> c \<le> 8202))"

definition trimWhiteSpace :: "jsstring \<Rightarrow> jsstring" where
  "trimWhiteSpace s = rev (dropWhile isWhiteSpace (rev (dropWhile isWhiteSpace s)))"

definition digitValue :: "nat \<Rightarrow> nat option" where
  "digitValue c =
     (if 48 \<le> c \<and> c \<le> 57 then Some (c - 48)
      else if 97 \<le> c \<and> c \<le> 102 then Some (c - 87)
      else if 65 \<le> c \<and> c \<le> 70 then Some (c - 55)
      else None)"

fun digitsValue :: "nat \<Rightarrow> jsstring \<Rightarrow> nat \<Rightarrow> nat option" where
  "digitsValue b [] acc = Some acc"
| "digitsValue b (c # cs) acc =
     (case digitValue c of
        None \<Rightarrow> None
      | Some d \<Rightarrow> if d < b then digitsValue b cs (acc * b + d) else None)"

definition parseDigits :: "nat \<Rightarrow> jsstring \<Rightarrow> nat option" where
  "parseDigits b s = (if s = [] then None else digitsValue b s 0)"

definition parseSignedInteger :: "jsstring \<Rightarrow> int option" where
  "parseSignedInteger s =
     (case s of
        [] \<Rightarrow> None
      | c # cs \<Rightarrow>
          if c = of_char (CHR ''+'') then map_option int (parseDigits 10 cs)
          else if c = of_char (CHR ''-'') then map_option (\<lambda>n. - int n) (parseDigits 10 cs)
          else map_option int (parseDigits 10 s))"

definition isExponentIndicator :: "nat \<Rightarrow> bool" where
  "isExponentIndicator c = (c = of_char (CHR ''e'') \<or> c = of_char (CHR ''E''))"

text \<open>The digits of a mantissa read as one integer, and how many of them follow the point.\<close>

definition parseMantissa :: "jsstring \<Rightarrow> (nat \<times> nat) option" where
  "parseMantissa m =
     (let ip = takeWhile (\<lambda>c. c \<noteq> of_char (CHR ''.'')) m;
          fr = dropWhile (\<lambda>c. c \<noteq> of_char (CHR ''.'')) m
      in if fr = [] then map_option (\<lambda>n. (n, 0)) (parseDigits 10 ip)
         else if ip = [] \<and> tl fr = [] then None
         else map_option (\<lambda>n. (n, length (tl fr))) (digitsValue 10 (ip @ tl fr) 0))"

definition decimalValue :: "nat \<Rightarrow> int \<Rightarrow> jsnum" where
  "decimalValue n k =
     (if 0 \<le> k then roundToDouble (n * 10 ^ nat k) 1 else roundToDouble n (10 ^ nat (- k)))"

definition parseUnsignedDecimal :: "jsstring \<Rightarrow> jsnum option" where
  "parseUnsignedDecimal s =
     (if s = str ''Infinity'' then Some PosInf
      else
        let m = takeWhile (\<lambda>c. \<not> isExponentIndicator c) s;
            rest = dropWhile (\<lambda>c. \<not> isExponentIndicator c) s
        in (case (if rest = [] then Some 0 else parseSignedInteger (tl rest)) of
              None \<Rightarrow> None
            | Some ex \<Rightarrow>
                (case parseMantissa m of
                   None \<Rightarrow> None
                 | Some (n, fractionDigits) \<Rightarrow> Some (decimalValue n (ex - int fractionDigits)))))"

definition parseDecimalLiteral :: "jsstring \<Rightarrow> jsnum option" where
  "parseDecimalLiteral s =
     (case s of
        [] \<Rightarrow> None
      | c # cs \<Rightarrow>
          if c = of_char (CHR ''+'') then parseUnsignedDecimal cs
          else if c = of_char (CHR ''-'') then map_option js_negate (parseUnsignedDecimal cs)
          else parseUnsignedDecimal s)"

definition parseNonDecimalInteger :: "jsstring \<Rightarrow> nat option" where
  "parseNonDecimalInteger s =
     (case s of
        z # x # ds \<Rightarrow>
          if z \<noteq> of_char (CHR ''0'') then None
          else if x = of_char (CHR ''x'') \<or> x = of_char (CHR ''X'') then parseDigits 16 ds
          else if x = of_char (CHR ''o'') \<or> x = of_char (CHR ''O'') then parseDigits 8 ds
          else if x = of_char (CHR ''b'') \<or> x = of_char (CHR ''B'') then parseDigits 2 ds
          else None
      | _ \<Rightarrow> None)"

definition StringToNumber :: "jsstring \<Rightarrow> jsnum" where
  "StringToNumber s =
     (let t = trimWhiteSpace s in
      if t = [] then Fin 0
      else (case parseNonDecimalInteger t of
              Some n \<Rightarrow> roundToDouble n 1
            | None \<Rightarrow> (case parseDecimalLiteral t of Some v \<Rightarrow> v | None \<Rightarrow> NaN)))"

fun Number :: "jsval \<Rightarrow> jsnum" where
  "Number JUndefined = NaN"
| "Number JNull = Fin 0"
| "Number (JBoolean b) = Fin (if b then 1 else 0)"
| "Number (JNumber n) = n"
| "Number (JString s) = StringToNumber s"

section \<open>Data model\<close>

record Event =
  id' :: jsstring
  name :: jsstring
  category :: jsstring
  description :: jsstring
  city :: jsstring
  idealGroupSize :: jsstring
  durationHours :: jsval
  costPerPerson :: jsval
  meetingPoint :: jsstring
  transitTips :: "jsstring option"
  bookingLink :: "jsstring option"
  bestMonths :: jsstring
  accessibilityNotes :: "jsstring option"
  imageUrl :: jsstring

datatype City = chicago | minneapolis

record User =
  userId' :: jsstring

text \<open>
  The state of the component \<^verbatim>\<open>App\<close>: one field for each \<^verbatim>\<open>useState\<close>. The two
  ranges are arrays of numbers, as the sliders deliver them.
\<close>

record AppState =
  user :: "User option"
  loading :: bool
  selectedCity :: City
  searchQuery :: jsstring
  events :: "Event list"
  filteredEvents :: "Event list"
  selectedEvent :: "Event option"
  favorites :: "jsstring set"
  isFilterOpen :: bool
  selectedCategories :: "jsstring list"
  costRange :: "jsnum list"
  durationRange :: "jsnum list"

text \<open>What the code writes to the console, by level, with the values it interpolates.\<close>

datatype Message =
    MsgFilteringTotal nat
  | MsgFilterCriteria jsstring "jsstring list" "jsnum list" "jsnum list"
  | MsgAfterSearch nat nat
  | MsgAfterCategory nat nat
  | MsgCostRejected jsstring jsnum jsval jsval
  | MsgAfterCost nat nat
  | MsgDurationRejected jsstring jsnum jsval jsval
  | MsgAfterDuration nat nat
  | MsgFilteredCount nat
  | MsgEffectTriggered bool bool
  | MsgLoadingEvents City
  | MsgRawEvents nat
  | MsgFormattedEvents nat
  | MsgLoadEventsFailed
  | MsgLoadFavoritesFailed
  | MsgToggleFavoriteFailed

datatype ConsoleCall = console_log Message | console_error Message

fun isError :: "ConsoleCall \<Rightarrow> bool" where
  "isError (console_log m) = False"
| "isError (console_error m) = True"

section \<open>The filter: \<^verbatim>\<open>filterEvents\<close>\<close>

text \<open>Reading \<^verbatim>\<open>range[i]\<close>: past the end of the array the value is undefined.\<close>

definition index :: "jsnum list \<Rightarrow> nat \<Rightarrow> jsval" where
  "index rng i = (if i < length rng then JNumber (rng ! i) else JUndefined)"

text \<open>The three callbacks of the search, cost and duration filters.\<close>

definition matchesSearch :: "jsstring \<Rightarrow> Event \<Rightarrow> bool" where
  "matchesSearch q event =
     (includes_str (toLowerCase (name event)) (toLowerCase q) \<or>
      includes_str (toLowerCase (description event)) (toLowerCase q) \<or>
      includes_str (toLowerCase (category event)) (toLowerCase q))"

definition costPasses :: "jsnum list \<Rightarrow> Event \<Rightarrow> bool" where
  "costPasses rng event =
     (let cost = Number (costPerPerson event)
      in js_ge cost (Number (index rng 0)) \<and> js_le cost (Number (index rng 1)))"

definition durationPasses :: "jsnum list \<Rightarrow> Event \<Rightarrow> bool" where
  "durationPasses rng event =
     (let duration = Number (durationHours event)
      in js_ge duration (Number (index rng 0)) \<and> js_le duration (Number (index rng 1)))"

definition costRejected :: "jsnum list \<Rightarrow> Event \<Rightarrow> ConsoleCall" where
  "costRejected rng event =
     console_log (MsgCostRejected (name event) (Number (costPerPerson event))
                    (index rng 0) (index rng 1))"

definition durationRejected :: "jsnum list \<Rightarrow> Event \<Rightarrow> ConsoleCall" where
  "durationRejected rng event =
     console_log (MsgDurationRejected (name event) (Number (durationHours event))
                    (index rng 0) (index rng 1))"

text \<open>
  \<^verbatim>\<open>Array.prototype.filter\<close> with a callback that writes a line for each element it
  rejects: the elements kept, in order, and the lines written, in order.
\<close>

fun filterLogging :: "('a \<Rightarrow> bool) \<Rightarrow> ('a \<Rightarrow> ConsoleCall) \<Rightarrow> 'a list \<Rightarrow> 'a list \<times> ConsoleCall list" where
  "filterLogging passes rejected [] = ([], [])"
| "filterLogging passes rejected (x # xs) =
     (let (kept, out) = filterLogging passes rejected xs
      in if passes x then (x # kept, out) else (kept, rejected x # out))"

definition filterEvents :: "AppState \<Rightarrow> AppState \<times> ConsoleCall list" where
  "filterEvents st =
     (let out0 = [console_log (MsgFilteringTotal (length (events st))),
                  console_log (MsgFilterCriteria (searchQuery st) (selectedCategories st)
                                 (costRange st) (durationRange st))];
          filtered = events st;
          (filtered, out1) =
            (if searchQuery st \<noteq> [] then
               (let beforeSearch = length filtered;
                    filtered = filter (matchesSearch (searchQuery st)) filtered
                in (filtered, [console_log (MsgAfterSearch beforeSearch (length filtered))]))
             else (filtered, []));
          (filtered, out2) =
            (if length (selectedCategories st) > 0 then
               (let beforeCategory = length filtered;
                    filtered = filter (\<lambda>event. List.member (selectedCategories st) (category event)) filtered
                in (filtered, [console_log (MsgAfterCategory beforeCategory (length filtered))]))
             else (filtered, []));
          beforeCost = length filtered;
          (filtered, rejected3) = filterLogging (costPasses (costRange st)) (costRejected (costRange st)) filtered;
          out3 = rejected3 @ [console_log (MsgAfterCost beforeCost (length filtered))];
          beforeDuration = length filtered;
          (filtered, rejected4) =
            filterLogging (durationPasses (durationRange st)) (durationRejected (durationRange st)) filtered;
          out4 = rejected4 @ [console_log (MsgAfterDuration beforeDuration (length filtered))]
      in (st\<lparr>filteredEvents := filtered\<rparr>,
          out0 @ out1 @ out2 @ out3 @ out4 @ [console_log (MsgFilteredCount (length filtered))]))"

text \<open>The visible set: what \<^verbatim>\<open>filterEvents\<close> leaves in \<^verbatim>\<open>filteredEvents\<close>.\<close>

definition visible :: "AppState \<Rightarrow> Event list" where
  "visible st = filteredEvents (fst (filterEvents st))"

text \<open>
  The pipeline before the two range filters: the search filter runs only when the query
  is a non-empty text, the category filter only when a category is selected.
\<close>

definition searchStage :: "jsstring \<Rightarrow> Event list \<Rightarrow> Event list" where
  "searchStage q xs = (if q \<noteq> [] then filter (matchesSearch q) xs else xs)"

definition categoryStage :: "jsstring list \<Rightarrow> Event list \<Rightarrow> Event list" where
  "categoryStage cats xs =
     (if length cats > 0 then filter (\<lambda>event. List.member cats (category event)) xs else xs)"

section \<open>The persistence collaborator\<close>

text \<open>
  Modelled from the spec: the record store behind \<^verbatim>\<open>blink.db\<close> (the client is not
  part of the source). The favorites collection is a sequence of records;
  \<^verbatim>\<open>list\<close> returns the records that match, \<^verbatim>\<open>create\<close> adds one record,
  \<^verbatim>\<open>delete(id)\<close> removes the record with that identifier and fails when there is
  none. The events collection returns the raw records of one city. Every call may
  also fail on its own (network, storage); which calls fail, the identifier the store
  gives a new record and the clock are inputs of each operation.
\<close>

record FavoriteRecord =
  recordId :: jsstring
  userId :: jsstring
  eventId :: jsstring
  createdAt :: nat

record RawEvent =
  raw_id :: jsstring
  raw_name :: jsstring
  raw_category :: jsstring
  raw_description :: jsstring
  raw_city :: jsstring
  ideal_group_size :: jsstring
  duration_hours :: jsval
  cost_per_person :: jsval
  meeting_point :: jsstring
  transit_tips :: "jsstring option"
  booking_link :: "jsstring option"
  best_months :: jsstring
  accessibility_notes :: "jsstring option"
  image_url :: jsstring

datatype DbCall =
    EventsList City
  | FavoritesList jsstring "jsstring option"
  | FavoritesCreate FavoriteRecord
  | FavoritesDelete jsstring

fun isWrite :: "DbCall \<Rightarrow> bool" where
  "isWrite (FavoritesCreate r) = True"
| "isWrite (FavoritesDelete i) = True"
| "isWrite c = False"

datatype DbError = WriteError

record Collaborator =
  listFails :: bool
  createFails :: bool
  deleteFails :: bool
  newId :: jsstring
  now :: nat

definition favorites_list :: "jsstring \<Rightarrow> jsstring option \<Rightarrow> FavoriteRecord list \<Rightarrow> FavoriteRecord list" where
  "favorites_list u e table =
     filter (\<lambda>r. userId r = u \<and> (case e of None \<Rightarrow> True | Some e' \<Rightarrow> eventId r = e')) table"

definition favorites_create :: "FavoriteRecord \<Rightarrow> FavoriteRecord list \<Rightarrow> FavoriteRecord list" where
  "favorites_create r table = table @ [r]"

fun removeRecord :: "jsstring \<Rightarrow> FavoriteRecord list \<Rightarrow> FavoriteRecord list" where
  "removeRecord i [] = []"
| "removeRecord i (r # rs) = (if recordId r = i then rs else r # removeRecord i rs)"

definition favorites_delete :: "jsstring \<Rightarrow> FavoriteRecord list \<Rightarrow> DbError + FavoriteRecord list" where
  "favorites_delete i table =
     (if List.member (map recordId table) i then Inr (removeRecord i table) else Inl WriteError)"

text \<open>
  The world the component runs in: its own state, the two collections, the catalog
  requests that have been sent and not answered yet (each with the city it was sent
  for), and what has been observed so far: the calls to the store and the console.
\<close>

record World =
  app :: AppState
  favoritesDb :: "FavoriteRecord list"
  eventsDb :: "City \<Rightarrow> RawEvent list"
  inFlight :: "City list"
  calls :: "DbCall list"
  console :: "ConsoleCall list"

section \<open>Favorites: \<^verbatim>\<open>loadFavorites\<close> and \<^verbatim>\<open>toggleFavorite\<close>\<close>

text \<open>
  Both run to completion here, one after the other: the model has no second operation
  starting while the first waits for the store.
\<close>

definition loadFavorites :: "Collaborator \<Rightarrow> World \<Rightarrow> World" where
  "loadFavorites env w =
     (case user (app w) of
        None \<Rightarrow> w
      | Some u \<Rightarrow>
          (let w1 = w\<lparr>calls := calls w @ [FavoritesList (userId' u) None]\<rparr>
           in if listFails env then
                w1\<lparr>console := console w1 @ [console_error MsgLoadFavoritesFailed]\<rparr>
              else
                (let result = favorites_list (userId' u) None (favoritesDb w)
                 in w1\<lparr>app := (app w1)\<lparr>favorites := set (map eventId result)\<rparr>\<rparr>)))"

definition toggleFavorite :: "Collaborator \<Rightarrow> jsstring \<Rightarrow> World \<Rightarrow> World" where
  "toggleFavorite env eid w =
     (case user (app w) of
        None \<Rightarrow> w
      | Some u \<Rightarrow>
          if eid \<in> favorites (app w) then
            (let w1 = w\<lparr>calls := calls w @ [FavoritesList (userId' u) (Some eid)]\<rparr>
             in if listFails env then
                  w1\<lparr>console := console w1 @ [console_error MsgToggleFavoriteFailed]\<rparr>
                else
                  (case favorites_list (userId' u) (Some eid) (favoritesDb w) of
                     [] \<Rightarrow> w1\<lparr>app := (app w1)\<lparr>favorites := favorites (app w1) - {eid}\<rparr>\<rparr>
                   | r # rs \<Rightarrow>
                       (let w2 = w1\<lparr>calls := calls w1 @ [FavoritesDelete (recordId r)]\<rparr>
                        in (case (if deleteFails env then Inl WriteError
                                  else favorites_delete (recordId r) (favoritesDb w2)) of
                              Inl err \<Rightarrow>
                                w2\<lparr>console := console w2 @ [console_error MsgToggleFavoriteFailed]\<rparr>
                            | Inr table \<Rightarrow>
                                w2\<lparr>favoritesDb := table,
                                   app := (app w2)\<lparr>favorites := favorites (app w2) - {eid}\<rparr>\<rparr>))))
          else
            (let r = \<lparr>recordId = newId env, userId = userId' u, eventId = eid, createdAt = now env\<rparr>;
                 w1 = w\<lparr>calls := calls w @ [FavoritesCreate r]\<rparr>
             in if createFails env then
                  w1\<lparr>console := console w1 @ [console_error MsgToggleFavoriteFailed]\<rparr>
                else
                  w1\<lparr>favoritesDb := favorites_create r (favoritesDb w1),
                     app := (app w1)\<lparr>favorites := insert eid (favorites (app w1))\<rparr>\<rparr>))"

section \<open>Random pick: \<^verbatim>\<open>surpriseMe\<close>\<close>

text \<open>
  \<^verbatim>\<open>Math.random()\<close> returns a double that is at least 0 and less than 1. A finite
  double that is not negative is \<open>mantissa \<sqdot> 2\<^sup>e\<close> with \<open>mantissa < 2\<^sup>5\<^sup>3\<close> and
  \<open>-1074 \<le> e \<le> 971\<close>.
\<close>

datatype double = Double (mantissa: nat) (exponent: int)

definition isDouble :: "double \<Rightarrow> bool" where
  "isDouble d = (mantissa d < 2 ^ 53 \<and> - 1074 \<le> exponent d \<and> exponent d \<le> 971)"

definition valueOf :: "double \<Rightarrow> real" where
  "valueOf d = real (mantissa d) * 2 powi exponent d"

text \<open>
  \<^verbatim>\<open>random * length\<close>: the length of an array is an integer below \<open>2\<^sup>3\<^sup>2\<close>, so the exact
  product is \<open>(mantissa \<sqdot> length) \<sqdot> 2\<^sup>e\<close>. When that mantissa has more than 53 bits the
  product is rounded to the nearest double, ties to even: the bits in excess are
  rounded away and the exponent grows by their number. A factor below 1 gives a
  product below the length, which cannot overflow.
\<close>

definition timesLength :: "double \<Rightarrow> nat \<Rightarrow> double" where
  "timesLength d n =
     (let m = mantissa d * n
      in if m < 2 ^ 53 then Double m (exponent d)
         else (let s = bitLength m - 53
               in Double (roundHalfEven m (2 ^ s)) (exponent d + int s)))"

text \<open>\<^verbatim>\<open>Math.floor\<close> of a double that is not negative.\<close>

definition floorOf :: "double \<Rightarrow> int" where
  "floorOf d =
     (if 0 \<le> exponent d then int (mantissa d) * 2 ^ nat (exponent d)
      else int (mantissa d) div 2 ^ nat (- exponent d))"

text \<open>
  \<open>random\<close> is what \<^verbatim>\<open>Math.random()\<close> returned. Reading the array outside its
  bounds gives undefined, which \<^verbatim>\<open>setSelectedEvent\<close> would store as no selection.
\<close>

definition surpriseMe :: "double \<Rightarrow> AppState \<Rightarrow> AppState" where
  "surpriseMe random st =
     (if length (filteredEvents st) > 0 then
        (let i = floorOf (timesLength random (length (filteredEvents st)));
             randomEvent = (if 0 \<le> i \<and> i < int (length (filteredEvents st))
                            then Some (filteredEvents st ! nat i) else None)
         in st\<lparr>selectedEvent := randomEvent\<rparr>)
      else st)"

section \<open>Catalog: \<^verbatim>\<open>loadEvents\<close> and the effect that calls it\<close>

definition formatEvent :: "RawEvent \<Rightarrow> Event" where
  "formatEvent event =
     \<lparr>id' = raw_id event,
      name = raw_name event,
      category = raw_category event,
      description = raw_description event,
      city = raw_city event,
      idealGroupSize = ideal_group_size event,
      durationHours = duration_hours event,
      costPerPerson = cost_per_person event,
      meetingPoint = meeting_point event,
      transitTips = transit_tips event,
      bookingLink = booking_link event,
      bestMonths = best_months event,
      accessibilityNotes = accessibility_notes event,
      imageUrl = image_url event\<rparr>"

text \<open>
  \<^verbatim>\<open>loadEvents\<close> waits for the store between sending the request and using the
  answer, and other handlers run in between. So it is two steps: sending, with the
  city selected at that moment, and the continuation that runs when the answer (or
  the failure) of one of the pending requests arrives.
\<close>

definition loadEvents_request :: "World \<Rightarrow> World" where
  "loadEvents_request w =
     w\<lparr>console := console w @ [console_log (MsgLoadingEvents (selectedCity (app w)))],
       calls := calls w @ [EventsList (selectedCity (app w))],
       inFlight := inFlight w @ [selectedCity (app w)]\<rparr>"

definition dropAt :: "nat \<Rightarrow> 'a list \<Rightarrow> 'a list" where
  "dropAt k xs = take k xs @ drop (Suc k) xs"

definition loadEvents_resolve :: "nat \<Rightarrow> World \<Rightarrow> World" where
  "loadEvents_resolve k w =
     (if k < length (inFlight w) then
        (let result = eventsDb w (inFlight w ! k);
             formattedEvents = map formatEvent result
         in w\<lparr>console := console w @ [console_log (MsgRawEvents (length result)),
                                       console_log (MsgFormattedEvents (length formattedEvents))],
              inFlight := dropAt k (inFlight w),
              app := (app w)\<lparr>events := formattedEvents\<rparr>\<rparr>)
      else w)"

definition loadEvents_reject :: "nat \<Rightarrow> World \<Rightarrow> World" where
  "loadEvents_reject k w =
     (if k < length (inFlight w) then
        w\<lparr>console := console w @ [console_error MsgLoadEventsFailed],
          inFlight := dropAt k (inFlight w)\<rparr>
      else w)"

text \<open>
  The effect that follows a render: it writes a line, returns when nobody is signed in
  or the session is still loading, and otherwise calls \<^verbatim>\<open>loadEvents\<close>, which sends its
  request, and then \<^verbatim>\<open>loadFavorites\<close>. The city buttons call \<^verbatim>\<open>setSelectedCity\<close>; a
  new value gives \<^verbatim>\<open>loadEvents\<close> a new identity, so the effect runs again, and the
  same value changes nothing.
\<close>

definition loadEffect :: "Collaborator \<Rightarrow> World \<Rightarrow> World" where
  "loadEffect env w =
     (let w0 = w\<lparr>console := console w @
                  [console_log (MsgEffectTriggered (user (app w) \<noteq> None) (loading (app w)))]\<rparr>
      in if user (app w0) = None \<or> loading (app w0) then w0
         else loadFavorites env (loadEvents_request w0))"

definition selectCity :: "Collaborator \<Rightarrow> City \<Rightarrow> World \<Rightarrow> World" where
  "selectCity env c w =
     (if c = selectedCity (app w) then w
      else loadEffect env (w\<lparr>app := (app w)\<lparr>selectedCity := c\<rparr>\<rparr>))"

text \<open>
  What can happen next: the user picks a city, or one of the pending catalog
  requests is answered, or fails. Requests are answered in any order.
\<close>

datatype Step = SelectCity Collaborator City | Resolve nat | Reject nat

fun step :: "Step \<Rightarrow> World \<Rightarrow> World" where
  "step (SelectCity env c) w = selectCity env c w"
| "step (Resolve k) w = loadEvents_resolve k w"
| "step (Reject k) w = loadEvents_reject k w"

fun run :: "Step list \<Rightarrow> World \<Rightarrow> World" where
  "run [] w = w"
| "run (s # ss) w = run ss (step s w)"

section \<open>Notions the statements use\<close>

text \<open>The conjunction of the four filters, as one predicate on an event.\<close>

definition keeps :: "AppState \<Rightarrow> Event \<Rightarrow> bool" where
  "keeps st e =
     ((searchQuery st = [] \<or> matchesSearch (searchQuery st) e) \<and>
      (selectedCategories st = [] \<or> category e \<in> set (selectedCategories st)) \<and>
      costPasses (costRange st) e \<and> durationPasses (durationRange st) e)"

text \<open>
  The specification's wording of the text filter, for ASCII text: two code units are
  the same letter when they are equal or one is a capital letter A to Z and the other
  the small letter 32 places after it; \<open>q\<close> is a case-insensitive substring of \<open>s\<close> when
  some contiguous run of \<open>s\<close> has the length of \<open>q\<close> and the same letters, place by
  place.
\<close>

definition isAscii :: "jsstring \<Rightarrow> bool" where
  "isAscii s = list_all (\<lambda>c. c < 128) s"

definition sameLetter :: "nat \<Rightarrow> nat \<Rightarrow> bool" where
  "sameLetter a b =
     (a = b \<or> (65 \<le> a \<and> a \<le> 90 \<and> b = a + 32) \<or> (65 \<le> b \<and> b \<le> 90 \<and> a = b + 32))"

definition substrings :: "jsstring \<Rightarrow> jsstring list" where
  "substrings s = concat (map prefixes (suffixes s))"

definition containsIgnoringCase :: "jsstring \<Rightarrow> jsstring \<Rightarrow> bool" where
  "containsIgnoringCase s q = list_ex (\<lambda>u. list_all2 sameLetter u q) (substrings s)"

text \<open>
  For a toggle: all three calls go through; the records of the store for this user and
  event; the record the toggle creates; the writes among the calls made so far.
\<close>

definition succeeds :: "Collaborator \<Rightarrow> bool" where
  "succeeds env = (\<not> listFails env \<and> \<not> createFails env \<and> \<not> deleteFails env)"

definition matching :: "User \<Rightarrow> jsstring \<Rightarrow> World \<Rightarrow> FavoriteRecord list" where
  "matching u eid w = favorites_list (userId' u) (Some eid) (favoritesDb w)"

definition newRecord :: "Collaborator \<Rightarrow> User \<Rightarrow> jsstring \<Rightarrow> FavoriteRecord" where
  "newRecord env u eid = \<lparr>recordId = newId env, userId = userId' u, eventId = eid, createdAt = now env\<rparr>"

definition writes :: "World \<Rightarrow> DbCall list" where
  "writes w = filter isWrite (calls w)"

text \<open>
  The city whose answer is in the catalog after a run: that of the request answered
  last, if any request was answered.
\<close>

fun origin :: "Step list \<Rightarrow> World \<Rightarrow> City option \<Rightarrow> City option" where
  "origin [] w c = c"
| "origin (s # ss) w c =
     origin ss (step s w)
       (case s of
          Resolve k \<Rightarrow> if k < length (inFlight w) then Some (inFlight w ! k) else c
        | _ \<Rightarrow> c)"

section \<open>Sample data\<close>

text \<open>The state of a freshly mounted component: the initial value of each \<^verbatim>\<open>useState\<close>.\<close>

definition initialState :: AppState where
  "initialState =
     \<lparr>user = None, loading = True, selectedCity = chicago, searchQuery = [],
      events = [], filteredEvents = [], selectedEvent = None, favorites = {},
      isFilterOpen = False, selectedCategories = [],
      costRange = [Fin 0, Fin 100], durationRange = [Fin 0, Fin 5]\<rparr>"

text \<open>
  Two events, costing 10 and 90, and states holding them: with the cost range [0, 50],
  with the initial ranges, with the query "kayak", with the category Sports selected.
\<close>

definition sampleEvent :: "jsstring \<Rightarrow> jsstring \<Rightarrow> jsstring \<Rightarrow> jsval \<Rightarrow> jsval \<Rightarrow> Event" where
  "sampleEvent i c d cost duration =
     \<lparr>id' = i, name = i, category = c, description = d, city = (str ''chicago''),
      idealGroupSize = (str ''10-20''), durationHours = duration, costPerPerson = cost,
      meetingPoint = (str ''Lobby''), transitTips = None, bookingLink = None,
      bestMonths = (str ''May-September''), accessibilityNotes = None, imageUrl = []\<rparr>"

definition foodEvent :: Event where
  "foodEvent = sampleEvent (str ''Pizza Tour'') (str ''Food'') (str ''Deep dish tasting'') (JNumber (Fin 10)) (JNumber (Fin 2))"

definition sportsEvent :: Event where
  "sportsEvent = sampleEvent (str ''River Day'') (str ''Sports'') (str ''Kayaking on the river'') (JNumber (Fin 90)) (JNumber (Fin 1))"

definition twoEventState :: AppState where
  "twoEventState = initialState\<lparr>events := [foodEvent, sportsEvent], costRange := [Fin 0, Fin 50]\<rparr>"

definition wideState :: AppState where
  "wideState = initialState\<lparr>events := [foodEvent, sportsEvent]\<rparr>"

definition kayakState :: AppState where
  "kayakState = initialState\<lparr>events := [foodEvent, sportsEvent], searchQuery := (str ''kayak'')\<rparr>"

definition sportsOnlyState :: AppState where
  "sportsOnlyState = initialState\<lparr>events := [foodEvent, sportsEvent], selectedCategories := [(str ''Sports'')]\<rparr>"

text \<open>Two records with a cost that is not a number: a text, and null.\<close>

definition textCostEvent :: Event where
  "textCostEvent = sampleEvent (str ''Escape Room'') (str ''Team Building'') (str ''Solve the puzzle'') (JString (str ''abc'')) (JNumber (Fin 2))"

definition nullCostEvent :: Event where
  "nullCostEvent = sampleEvent (str ''Museum Walk'') (str ''Culture/Arts'') (str ''Guided walk'') JNull (JNumber (Fin 1))"

definition malformedState :: AppState where
  "malformedState = initialState\<lparr>events := [textCostEvent, nullCostEvent, foodEvent]\<rparr>"

text \<open>
  Two states after filtering, each with an event open: three visible events, and none.
  The draw \<open>oneThird\<close> is the double nearest to 1/3, written 0.3333333333333333.
\<close>

definition artEvent :: Event where
  "artEvent = sampleEvent (str ''Gallery Night'') (str ''Culture/Arts'') (str ''Openings'') (JNumber (Fin 30)) (JNumber (Fin 3))"

definition pickState :: AppState where
  "pickState = fst (filterEvents (initialState\<lparr>events := [foodEvent, sportsEvent, artEvent],
      selectedEvent := Some foodEvent\<rparr>))"

definition emptyPickState :: AppState where
  "emptyPickState = fst (filterEvents (initialState\<lparr>events := [foodEvent, sportsEvent, artEvent],
      costRange := [Fin 95, Fin 100], selectedEvent := Some foodEvent\<rparr>))"

definition oneThird :: double where
  "oneThird = Double 6004799503160661 (- 54)"

text \<open>
  An event named in Greek capitals, omicron delta omicron sigma, and a state whose
  query is the capital sigma alone.
\<close>

definition odosEvent :: Event where
  "odosEvent = sampleEvent [927, 916, 927, 931] (str ''Tour'') (str ''A walk'') (JNumber (Fin 20)) (JNumber (Fin 2))"

definition sigmaState :: AppState where
  "sigmaState = initialState\<lparr>events := [odosEvent], searchQuery := [931]\<rparr>"

text \<open>
  A store where every call goes through and one where every call fails. Worlds:
  nobody signed in; nobody signed in, with a favorites set left over from an earlier
  session; a user signed in; a user signed in whose favorites set names an event the
  store has no record for; a user signed in after one toggle.
\<close>

definition okEnv :: Collaborator where
  "okEnv = \<lparr>listFails = False, createFails = False, deleteFails = False, newId = (str ''fav_1''), now = 1000\<rparr>"

definition failingEnv :: Collaborator where
  "failingEnv = \<lparr>listFails = True, createFails = True, deleteFails = True, newId = (str ''fav_1''), now = 1000\<rparr>"

definition emptyWorld :: World where
  "emptyWorld = \<lparr>app = initialState, favoritesDb = [], eventsDb = (\<lambda>c. []), inFlight = [], calls = [], console = []\<rparr>"

definition signedOutStale :: World where
  "signedOutStale = emptyWorld\<lparr>app := initialState\<lparr>favorites := {(str ''e1'')}\<rparr>\<rparr>"

definition alice :: User where
  "alice = \<lparr>userId' = (str ''alice'')\<rparr>"

definition signedIn :: World where
  "signedIn = emptyWorld\<lparr>app := initialState\<lparr>user := Some alice, loading := False\<rparr>\<rparr>"

definition outOfSync :: World where
  "outOfSync = emptyWorld\<lparr>app := initialState\<lparr>user := Some alice, loading := False, favorites := {(str ''e1'')}\<rparr>\<rparr>"

definition syncedWorld :: World where
  "syncedWorld = toggleFavorite okEnv (str ''e1'') signedIn"

text \<open>
  A store with one event in each city, and the world right after the component of a
  signed-in user has sent its first catalog request (for Chicago, the initial city).
\<close>

definition rawEvent :: "jsstring \<Rightarrow> jsstring \<Rightarrow> RawEvent" where
  "rawEvent i c =
     \<lparr>raw_id = i, raw_name = i, raw_category = (str ''Food & Drink''), raw_description = [],
      raw_city = c, ideal_group_size = (str ''10-20''), duration_hours = JNumber (Fin 2),
      cost_per_person = JString (str ''25''), meeting_point = [], transit_tips = None,
      booking_link = None, best_months = [], accessibility_notes = None, image_url = []\<rparr>"

definition sampleDb :: "City \<Rightarrow> RawEvent list" where
  "sampleDb c = (case c of chicago \<Rightarrow> [rawEvent (str ''Deep Dish Class'') (str ''chicago'')]
                         | minneapolis \<Rightarrow> [rawEvent (str ''Lake Walk'') (str ''minneapolis'')])"

definition mounted :: World where
  "mounted = loadEffect okEnv (signedIn\<lparr>eventsDb := sampleDb\<rparr>)"

section \<open>Properties of the filter\<close>

lemma str_eq_iff [simp]: "str a = str b \<longleftrightarrow> a = b"
  by (simp add: str_def inj_map_eq_map inj_on_def)

lemma str_eq_Nil [simp]: "str a = [] \<longleftrightarrow> a = []"
  by (simp add: str_def)

lemma fst_filterLogging: "fst (filterLogging p r xs) = filter p xs"
  by (induction xs) (auto split: prod.splits)

lemma snd_filterLogging: "snd (filterLogging p r xs) = map r (filter (\<lambda>x. \<not> p x) xs)"
  by (induction xs) (auto split: prod.splits)

lemma filterLogging_eq: "filterLogging p r xs = (filter p xs, map r (filter (\<lambda>x. \<not> p x) xs))"
  by (simp add: prod_eq_iff fst_filterLogging snd_filterLogging)

lemma visible_stages:
  "visible st =
     filter (durationPasses (durationRange st))
       (filter (costPasses (costRange st))
          (categoryStage (selectedCategories st) (searchStage (searchQuery st) (events st))))"
  by (simp add: visible_def filterEvents_def Let_def filterLogging_eq searchStage_def categoryStage_def)

lemma visible_filter: "visible st = filter (keeps st) (events st)"
  by (auto simp: visible_stages searchStage_def categoryStage_def keeps_def intro: filter_cong)

lemma count_list_filter_le: "count_list (filter P xs) e \<le> count_list xs e"
  by (induction xs) auto

subsection \<open>The result is a subsequence of the catalog\<close>

text \<open>
  C4. For every state, the visible set is a subsequence of the catalog: it is obtained
  from \<open>events\<close> by deleting elements, so every event of the result occurs in the
  catalog, none occurs more often than there, and the order of the catalog is kept.
\<close>

theorem C4_visible_subsequence:
  "subseq (visible st) (events st) \<and>
   set (visible st) \<subseteq> set (events st) \<and>
   (\<forall>e. count_list (visible st) e \<le> count_list (events st) e)"
  by (simp add: visible_filter count_list_filter_le)

lemmas sample_defs =
  twoEventState_def initialState_def foodEvent_def sportsEvent_def sampleEvent_def

lemmas passes_defs = keeps_def costPasses_def durationPasses_def index_def js_ge_def

theorem C4_visible_subsequence_witness:
  "subseq (visible twoEventState) (events twoEventState) \<and>
   visible twoEventState = [foodEvent] \<and>
   events twoEventState = [foodEvent, sportsEvent]"
  using C4_visible_subsequence [of twoEventState]
  by (simp add: visible_filter passes_defs sample_defs)

subsection \<open>The two range filters\<close>

lemma costPasses_pair:
  "costPasses [lo, hi] e \<longleftrightarrow>
     js_le lo (Number (costPerPerson e)) \<and> js_le (Number (costPerPerson e)) hi"
  by (simp add: costPasses_def index_def js_ge_def Let_def)

lemma durationPasses_pair:
  "durationPasses [lo, hi] e \<longleftrightarrow>
     js_le lo (Number (durationHours e)) \<and> js_le (Number (durationHours e)) hi"
  by (simp add: durationPasses_def index_def js_ge_def Let_def)

text \<open>
  C1. With \<open>costRange = [cmin, cmax]\<close> and \<open>durationRange = [dmin, dmax]\<close>, the visible set
  is what the search and category filters leave, restricted to the events with
  \<open>cmin \<le> costPerPerson \<le> cmax\<close> and \<open>dmin \<le> durationHours \<le> dmax\<close>, read as numbers
  and compared as the language compares them. All four bounds are inclusive: an event
  whose value is exactly a bound passes whenever the range is not empty. Example 1:
  of two events costing 10 and 90, the range [0, 50] keeps the first only.
\<close>

theorem C1_range_filters_inclusive:
  "visible (st\<lparr>costRange := [cmin, cmax], durationRange := [dmin, dmax]\<rparr>) =
     filter (\<lambda>e. js_le cmin (Number (costPerPerson e)) \<and> js_le (Number (costPerPerson e)) cmax \<and>
                 js_le dmin (Number (durationHours e)) \<and> js_le (Number (durationHours e)) dmax)
       (categoryStage (selectedCategories st) (searchStage (searchQuery st) (events st))) \<and>
   costPasses [cmin, cmax] e =
     (js_le cmin (Number (costPerPerson e)) \<and> js_le (Number (costPerPerson e)) cmax) \<and>
   durationPasses [dmin, dmax] e =
     (js_le dmin (Number (durationHours e)) \<and> js_le (Number (durationHours e)) dmax) \<and>
   costPasses [Fin lo, Fin hi] (e\<lparr>costPerPerson := JNumber (Fin lo)\<rparr>) = (lo \<le> hi) \<and>
   costPasses [Fin lo, Fin hi] (e\<lparr>costPerPerson := JNumber (Fin hi)\<rparr>) = (lo \<le> hi) \<and>
   durationPasses [Fin lo, Fin hi] (e\<lparr>durationHours := JNumber (Fin lo)\<rparr>) = (lo \<le> hi) \<and>
   durationPasses [Fin lo, Fin hi] (e\<lparr>durationHours := JNumber (Fin hi)\<rparr>) = (lo \<le> hi) \<and>
   visible (st\<lparr>searchQuery := [], selectedCategories := [],
               costRange := [Fin 0, Fin 50], durationRange := [Fin 0, Fin 5],
               events := [e1\<lparr>costPerPerson := JNumber (Fin 10), durationHours := JNumber (Fin 2), category := (str ''Food'')\<rparr>,
                          e2\<lparr>costPerPerson := JNumber (Fin 90), durationHours := JNumber (Fin 1), category := (str ''Sports'')\<rparr>]\<rparr>)
     = [e1\<lparr>costPerPerson := JNumber (Fin 10), durationHours := JNumber (Fin 2), category := (str ''Food'')\<rparr>]"
  by (simp add: visible_stages costPasses_pair durationPasses_pair searchStage_def categoryStage_def
        cong: filter_cong)

theorem C1_range_filters_inclusive_witness:
  "costPasses [Fin 0, Fin 50] foodEvent \<and> \<not> costPasses [Fin 0, Fin 50] sportsEvent \<and>
   durationPasses [Fin 0, Fin 5] foodEvent \<and> visible twoEventState = [foodEvent]"
  using C1_range_filters_inclusive [where st = twoEventState and cmin = "Fin 0" and cmax = "Fin 50"
      and dmin = "Fin 0" and dmax = "Fin 5" and e = foodEvent]
    C1_range_filters_inclusive [where cmin = "Fin 0" and cmax = "Fin 50" and e = sportsEvent]
  by (simp add: sample_defs searchStage_def categoryStage_def)

subsection \<open>The text filter\<close>

text \<open>
  Lower-casing a text leaves a run of ASCII code units inside it in place: no ASCII
  unit is a surrogate, the capital sigma or the dotted capital I, so each is mapped on
  its own, whatever surrounds it.
\<close>

lemma StringToCodePoints_ascii_prefix:
  "list_all (\<lambda>c. c < 128) k \<Longrightarrow> StringToCodePoints (k @ a) = k @ StringToCodePoints a"
proof (induction k)
  case Nil
  then show ?case by simp
next
  case (Cons c k)
  then have c: "\<not> isHighSurrogate c"
    by (simp add: isHighSurrogate_def)
  show ?case
  proof (cases "k @ a")
    case Nil
    then show ?thesis by simp
  next
    case (Cons l cs)
    with c have "StringToCodePoints (c # k @ a) = c # StringToCodePoints (k @ a)"
      by simp
    with Cons.IH Cons.prems show ?thesis
      by simp
  qed
qed

lemma StringToCodePoints_ascii_middle:
  assumes "list_all (\<lambda>c. c < 128) k"
  shows "\<exists>B A. StringToCodePoints (b @ k @ a) = B @ k @ A"
proof (induction b rule: induct_list012)
  case 1
  from StringToCodePoints_ascii_prefix [OF assms, of a]
  have "StringToCodePoints ([] @ k @ a) = [] @ k @ StringToCodePoints a"
    by simp
  then show ?case
    by blast
next
  case (2 v)
  show ?case
  proof (cases k)
    case Nil
    then have "StringToCodePoints ([v] @ k @ a) = StringToCodePoints ([v] @ k @ a) @ k @ []"
      by simp
    then show ?thesis
      by blast
  next
    case (Cons c k')
    with assms have "\<not> isLowSurrogate c"
      by (simp add: isLowSurrogate_def)
    with Cons have "StringToCodePoints ([v] @ k @ a) = v # StringToCodePoints (k @ a)"
      by simp
    with StringToCodePoints_ascii_prefix [OF assms, of a]
    have "StringToCodePoints ([v] @ k @ a) = [v] @ k @ StringToCodePoints a"
      by simp
    then show ?thesis
      by blast
  qed
next
  case (3 h l cs)
  show ?case
  proof (cases "isHighSurrogate h \<and> isLowSurrogate l")
    case True
    from 3(1) obtain B A where "StringToCodePoints (cs @ k @ a) = B @ k @ A"
      by blast
    with True have "StringToCodePoints ((h # l # cs) @ k @ a) =
        ((65536 + (h - 55296) * 1024 + (l - 56320)) # B) @ k @ A"
      by simp
    then show ?thesis
      by blast
  next
    case False
    from 3(2) obtain B A where "StringToCodePoints ((l # cs) @ k @ a) = B @ k @ A"
      by blast
    moreover from False
    have "StringToCodePoints ((h # l # cs) @ k @ a) = h # StringToCodePoints ((l # cs) @ k @ a)"
      by auto
    ultimately have "StringToCodePoints ((h # l # cs) @ k @ a) = (h # B) @ k @ A"
      by simp
    then show ?thesis
      by blast
  qed
qed

lemma simpleLowercase_ascii: "c < 128 \<Longrightarrow> simpleLowercase c = asciiLower c"
  by (simp add: simpleLowercase_def)

lemma lowerCodePoints_ascii_prefix:
  "list_all (\<lambda>c. c < 128) k \<Longrightarrow>
     lowerCodePoints seen (k @ a) = map asciiLower k @ lowerCodePoints (rev k @ seen) a"
  by (induction k arbitrary: seen) (simp_all add: simpleLowercase_ascii)

lemma lowerCodePoints_ascii_middle:
  assumes "list_all (\<lambda>c. c < 128) k"
  shows "\<exists>X Y. lowerCodePoints seen (b @ k @ a) = X @ map asciiLower k @ Y"
proof (induction b arbitrary: seen)
  case Nil
  from lowerCodePoints_ascii_prefix [OF assms, of seen a]
  have "lowerCodePoints seen ([] @ k @ a) = [] @ map asciiLower k @ lowerCodePoints (rev k @ seen) a"
    by simp
  then show ?case
    by blast
next
  case (Cons c b)
  from Cons [of "c # seen"] obtain X Y where
    "lowerCodePoints (c # seen) (b @ k @ a) = X @ map asciiLower k @ Y"
    by blast
  then have "lowerCodePoints seen ((c # b) @ k @ a) =
      ((if c = 931 then [if isFinalSigma seen (b @ k @ a) then 962 else 963]
        else if c = 304 then [105, 775] else [simpleLowercase c]) @ X) @ map asciiLower k @ Y"
    by simp
  then show ?case
    by blast
qed

lemma CodePointsToString_append:
  "CodePointsToString (xs @ ys) = CodePointsToString xs @ CodePointsToString ys"
  by (simp add: CodePointsToString_def)

lemma CodePointsToString_small:
  "list_all (\<lambda>c. c < 65536) xs \<Longrightarrow> CodePointsToString xs = xs"
  by (induction xs) (simp_all add: CodePointsToString_def CodePointToUnits_def)

lemma asciiLower_small: "list_all (\<lambda>c. c < 128) k \<Longrightarrow> list_all (\<lambda>c. c < 65536) (map asciiLower k)"
  by (induction k) (simp_all add: asciiLower_def)

lemma toLowerCase_ascii:
  assumes "isAscii s"
  shows "toLowerCase s = map asciiLower s"
proof -
  from assms have a: "list_all (\<lambda>c. c < 128) s"
    by (simp add: isAscii_def)
  have "StringToCodePoints s = s"
    using StringToCodePoints_ascii_prefix [OF a, of "[]"] by simp
  moreover have "lowerCodePoints [] s = map asciiLower s"
    using lowerCodePoints_ascii_prefix [OF a, of "[]" "[]"] by simp
  ultimately show ?thesis
    by (simp add: toLowerCase_def CodePointsToString_small [OF asciiLower_small [OF a]])
qed

lemma toLowerCase_ascii_middle:
  assumes "isAscii k"
  shows "\<exists>X Y. toLowerCase (b @ k @ a) = X @ map asciiLower k @ Y"
proof -
  from assms have k: "list_all (\<lambda>c. c < 128) k"
    by (simp add: isAscii_def)
  from StringToCodePoints_ascii_middle [OF k, of b a] obtain B A where
    "StringToCodePoints (b @ k @ a) = B @ k @ A"
    by blast
  moreover from lowerCodePoints_ascii_middle [OF k, of "[]" B A] obtain X Y where
    "lowerCodePoints [] (B @ k @ A) = X @ map asciiLower k @ Y"
    by blast
  ultimately have "toLowerCase (b @ k @ a) =
      CodePointsToString X @ map asciiLower k @ CodePointsToString Y"
    by (simp add: toLowerCase_def CodePointsToString_append
        CodePointsToString_small [OF asciiLower_small [OF k]])
  then show ?thesis
    by blast
qed


lemma set_substrings: "set (substrings s) = {u. sublist u s}"
  by (auto simp: substrings_def in_set_prefixes in_set_suffixes sublist_altdef')

lemma includes_str_sublist: "includes_str s q \<longleftrightarrow> sublist q s"
  by (induction s) (auto simp: sublist_Cons_right)

lemma sublist_map_iff:
  "sublist (map f q) (map f s) \<longleftrightarrow> (\<exists>u. sublist u s \<and> map f u = map f q)"
proof
  assume "sublist (map f q) (map f s)"
  then obtain ps ss where "map f s = ps @ (map f q @ ss)"
    by (auto simp: sublist_def)
  then have "\<exists>s1 r. s = s1 @ r \<and> ps = map f s1 \<and> map f q @ ss = map f r"
    by (simp only: map_eq_append_conv)
  then obtain s1 r where r: "s = s1 @ r" "map f r = map f q @ ss"
    by auto
  from r(2) have "\<exists>s2 s3. r = s2 @ s3 \<and> map f q = map f s2 \<and> ss = map f s3"
    by (simp only: map_eq_append_conv)
  then obtain s2 s3 where "r = s2 @ s3" "map f s2 = map f q"
    by auto
  with r(1) have "sublist s2 s" and "map f s2 = map f q"
    by simp_all
  then show "\<exists>u. sublist u s \<and> map f u = map f q"
    by blast
next
  assume "\<exists>u. sublist u s \<and> map f u = map f q"
  then obtain u ps ss where "s = ps @ u @ ss" and "map f u = map f q"
    by (auto simp: sublist_def)
  then have "map f s = map f ps @ map f q @ map f ss"
    by simp
  then show "sublist (map f q) (map f s)"
    unfolding sublist_def by blast
qed

lemma sameLetter_iff: "sameLetter a b \<longleftrightarrow> asciiLower a = asciiLower b"
  by (auto simp: sameLetter_def asciiLower_def)

lemma sameLetters_iff: "list_all2 sameLetter u q \<longleftrightarrow> map asciiLower u = map asciiLower q"
proof (induction u arbitrary: q)
  case Nil
  then show ?case by auto
next
  case (Cons a u)
  then show ?case
    by (cases q) (simp_all add: sameLetter_iff)
qed

lemma sameLetter_ascii: "sameLetter a b \<Longrightarrow> b < 128 \<Longrightarrow> a < 128"
  by (auto simp: sameLetter_def)

lemma sameLetters_ascii: "list_all2 sameLetter u q \<Longrightarrow> isAscii q \<Longrightarrow> isAscii u"
  unfolding isAscii_def
  by (induction u q rule: list_all2_induct) (auto intro: sameLetter_ascii)

lemma containsIgnoringCase_iff:
  "containsIgnoringCase s q \<longleftrightarrow> (\<exists>u. sublist u s \<and> list_all2 sameLetter u q)"
  by (auto simp: containsIgnoringCase_def list_ex_iff set_substrings)

lemma contains_includes:
  assumes "isAscii q" and "containsIgnoringCase s q"
  shows "includes_str (toLowerCase s) (toLowerCase q)"
proof -
  from assms(2) obtain u where u: "sublist u s" "list_all2 sameLetter u q"
    by (auto simp: containsIgnoringCase_iff)
  from u(2) assms(1) have au: "isAscii u"
    by (rule sameLetters_ascii)
  from u(1) obtain b a where "s = b @ u @ a"
    by (auto simp: sublist_def)
  with toLowerCase_ascii_middle [OF au, of b a] obtain X Y where
    "toLowerCase s = X @ map asciiLower u @ Y"
    by auto
  with u(2) have "toLowerCase s = X @ toLowerCase q @ Y"
    by (simp add: sameLetters_iff toLowerCase_ascii [OF assms(1)])
  then show ?thesis
    unfolding includes_str_sublist sublist_def by blast
qed

lemma includes_contains:
  assumes "isAscii q" and "isAscii s" and "includes_str (toLowerCase s) (toLowerCase q)"
  shows "containsIgnoringCase s q"
  using assms(3)
  unfolding toLowerCase_ascii [OF assms(1)] toLowerCase_ascii [OF assms(2)]
    includes_str_sublist sublist_map_iff containsIgnoringCase_iff sameLetters_iff .

lemma isAscii_str: "isAscii (str ''kayak'')" "isAscii (str ''Kayaking'')"
  by code_simp+

lemma kayak_contained: "containsIgnoringCase (before @ str ''Kayaking'' @ after) (str ''kayak'')"
proof -
  have "list_all2 sameLetter (str ''Kayak'') (str ''kayak'')"
    by code_simp
  moreover have "str ''Kayaking'' = str ''Kayak'' @ str ''ing''"
    by (simp add: str_def)
  then have "sublist (str ''Kayak'') (before @ str ''Kayaking'' @ after)"
    unfolding sublist_def by (metis append.assoc)
  ultimately show ?thesis
    unfolding containsIgnoringCase_iff by blast
qed

text \<open>
  C2. The visible set is what the other three filters leave, restricted, when the query
  is not empty, to the events for which the lower-cased query occurs in the lower-cased
  name, description or category; an empty query restricts nothing. For an ASCII query,
  every event with a field that contains the query as a case-insensitive substring is
  matched, and when the three fields are ASCII too the events matched are exactly
  those. Example 2: the query "kayak" matches every event whose description contains
  "Kayaking".
\<close>

theorem C2_text_filter:
  "visible st =
     filter (\<lambda>e. searchQuery st = [] \<or>
                 includes_str (toLowerCase (name e)) (toLowerCase (searchQuery st)) \<or>
                 includes_str (toLowerCase (description e)) (toLowerCase (searchQuery st)) \<or>
                 includes_str (toLowerCase (category e)) (toLowerCase (searchQuery st)))
       (filter (durationPasses (durationRange st))
          (filter (costPasses (costRange st))
             (categoryStage (selectedCategories st) (events st)))) \<and>
   visible (st\<lparr>searchQuery := []\<rparr>) =
     filter (durationPasses (durationRange st))
       (filter (costPasses (costRange st))
          (categoryStage (selectedCategories st) (events st))) \<and>
   (isAscii q \<and>
    (containsIgnoringCase (name e) q \<or> containsIgnoringCase (description e) q \<or>
     containsIgnoringCase (category e) q) \<longrightarrow> matchesSearch q e) \<and>
   (isAscii q \<and> isAscii (name e) \<and> isAscii (description e) \<and> isAscii (category e) \<longrightarrow>
      matchesSearch q e =
        (containsIgnoringCase (name e) q \<or> containsIgnoringCase (description e) q \<or>
         containsIgnoringCase (category e) q)) \<and>
   containsIgnoringCase (before @ str ''Kayaking'' @ after) (str ''kayak'') \<and>
   matchesSearch (str ''kayak'') (e\<lparr>description := before @ str ''Kayaking'' @ after\<rparr>)"
proof -
  have a: "visible st =
     filter (\<lambda>e. searchQuery st = [] \<or>
                 includes_str (toLowerCase (name e)) (toLowerCase (searchQuery st)) \<or>
                 includes_str (toLowerCase (description e)) (toLowerCase (searchQuery st)) \<or>
                 includes_str (toLowerCase (category e)) (toLowerCase (searchQuery st)))
       (filter (durationPasses (durationRange st))
          (filter (costPasses (costRange st))
             (categoryStage (selectedCategories st) (events st))))"
    by (auto simp: visible_stages searchStage_def matchesSearch_def categoryStage_def
          intro: filter_cong)
  have b: "visible (st\<lparr>searchQuery := []\<rparr>) =
     filter (durationPasses (durationRange st))
       (filter (costPasses (costRange st))
          (categoryStage (selectedCategories st) (events st)))"
    by (simp add: visible_stages searchStage_def categoryStage_def)
  have c: "matchesSearch q e"
    if "isAscii q" and "containsIgnoringCase (name e) q \<or> containsIgnoringCase (description e) q \<or>
     containsIgnoringCase (category e) q" for q e
    using that contains_includes [OF that(1)] by (auto simp: matchesSearch_def)
  have d: "matchesSearch q e =
        (containsIgnoringCase (name e) q \<or> containsIgnoringCase (description e) q \<or>
         containsIgnoringCase (category e) q)"
    if "isAscii q" and "isAscii (name e)" and "isAscii (description e)" and "isAscii (category e)"
    using that c [OF that(1), of e] includes_contains [OF that(1)]
    by (auto simp: matchesSearch_def)
  have k: "containsIgnoringCase (before @ str ''Kayaking'' @ after) (str ''kayak'')"
    by (rule kayak_contained)
  have m: "matchesSearch (str ''kayak'') (e\<lparr>description := before @ str ''Kayaking'' @ after\<rparr>)"
    using c [OF isAscii_str(1), of "e\<lparr>description := before @ str ''Kayaking'' @ after\<rparr>"] k
    by simp
  from a b c d k m show ?thesis
    by blast
qed

theorem C2_text_filter_witness:
  "visible kayakState = [sportsEvent] \<and>
   visible (kayakState\<lparr>searchQuery := []\<rparr>) = [foodEvent, sportsEvent] \<and>
   isAscii (str ''kayak'') \<and> isAscii (name sportsEvent) \<and> isAscii (description sportsEvent) \<and>
   isAscii (category sportsEvent) \<and>
   containsIgnoringCase (description sportsEvent) (str ''kayak'') \<and>
   matchesSearch (str ''kayak'') sportsEvent \<and>
   \<not> containsIgnoringCase (name foodEvent) (str ''kayak'') \<and>
   \<not> matchesSearch (str ''kayak'') foodEvent \<and>
   matchesSearch [233] (foodEvent\<lparr>name := [67, 97, 102, 201]\<rparr>)"
proof -
  have a: "includes_str (toLowerCase (str ''Kayaking on the river'')) (toLowerCase (str ''kayak''))"
    by code_simp
  have b: "\<not> includes_str (toLowerCase (str ''Pizza Tour'')) (toLowerCase (str ''kayak''))"
    by code_simp
  have c: "\<not> includes_str (toLowerCase (str ''Deep dish tasting'')) (toLowerCase (str ''kayak''))"
    by code_simp
  have d: "\<not> includes_str (toLowerCase (str ''Food'')) (toLowerCase (str ''kayak''))"
    by code_simp
  have e: "\<not> includes_str (toLowerCase (str ''River Day'')) (toLowerCase (str ''kayak''))"
    by code_simp
  have f: "\<not> includes_str (toLowerCase (str ''Sports'')) (toLowerCase (str ''kayak''))"
    by code_simp
  have g: "isAscii (str ''kayak'')" "isAscii (str ''River Day'')" "isAscii (str ''Sports'')"
    "isAscii (str ''Kayaking on the river'')"
    by code_simp+
  have h: "containsIgnoringCase (str ''Kayaking on the river'') (str ''kayak'')"
    by code_simp
  have i: "\<not> containsIgnoringCase (str ''Pizza Tour'') (str ''kayak'')"
    by code_simp
  have j: "includes_str (toLowerCase [67, 97, 102, 201]) (toLowerCase [233])"
    by code_simp
  show ?thesis
    using C2_text_filter [of kayakState "str ''kayak''" sportsEvent "[]" "str '' on the river''"]
      a b c d e f g h i j
    by (simp add: kayakState_def sample_defs passes_defs categoryStage_def matchesSearch_def)
qed

text \<open>
  The claim as written fails outside ASCII. Lower-casing maps the capital sigma (U+03A3)
  to the final small sigma (U+03C2) at the end of a word and to U+03C3 elsewhere: with
  the name U+039F U+0394 U+039F U+03A3 and the query U+03A3, the query is a substring of
  the name as it stands, yet the event is not visible.
\<close>

theorem C2_counterexample:
  "events sigmaState = [odosEvent] \<and>
   searchQuery sigmaState = [931] \<and>
   name odosEvent = [927, 916, 927, 931] \<and>
   sublist (searchQuery sigmaState) (name odosEvent) \<and>
   containsIgnoringCase (name odosEvent) (searchQuery sigmaState) \<and>
   toLowerCase (name odosEvent) = [959, 948, 959, 962] \<and>
   toLowerCase (searchQuery sigmaState) = [963] \<and>
   visible sigmaState = [] \<and>
   visible (sigmaState\<lparr>searchQuery := []\<rparr>) = [odosEvent]"
proof -
  have a: "toLowerCase [927, 916, 927, 931] = [959, 948, 959, 962]"
    by code_simp
  have b: "toLowerCase [931] = [963]"
    by code_simp
  have c: "containsIgnoringCase [927, 916, 927, 931] [931]"
    by code_simp
  have d: "sublist [931] [927, 916, 927, 931::nat]"
    unfolding includes_str_sublist [symmetric] by simp
  have e: "\<not> includes_str (toLowerCase [927, 916, 927, 931]) (toLowerCase [931])"
    "\<not> includes_str (toLowerCase (str ''Tour'')) (toLowerCase [931])"
    "\<not> includes_str (toLowerCase (str ''A walk'')) (toLowerCase [931])"
    by code_simp+
  show ?thesis
    using a b c d e
    by (simp add: sigmaState_def odosEvent_def initialState_def sampleEvent_def visible_filter
          passes_defs matchesSearch_def)
qed

subsection \<open>The category filter\<close>

text \<open>
  C3. The visible set is what the other three filters leave, restricted, when some
  category is selected, to the events whose category is one of the selected ones; with
  no category selected the result is that of the pipeline without a category filter.
\<close>

theorem C3_category_filter:
  "visible st =
     filter (\<lambda>e. selectedCategories st = [] \<or> category e \<in> set (selectedCategories st))
       (filter (durationPasses (durationRange st))
          (filter (costPasses (costRange st))
             (searchStage (searchQuery st) (events st)))) \<and>
   visible (st\<lparr>selectedCategories := []\<rparr>) =
     filter (durationPasses (durationRange st))
       (filter (costPasses (costRange st))
          (searchStage (searchQuery st) (events st)))"
  by (auto simp: visible_stages categoryStage_def intro: filter_cong)

theorem C3_category_filter_witness:
  "visible sportsOnlyState = [sportsEvent] \<and>
   visible (sportsOnlyState\<lparr>selectedCategories := []\<rparr>) = [foodEvent, sportsEvent]"
  using C3_category_filter [of sportsOnlyState]
  by (simp add: sportsOnlyState_def sample_defs passes_defs searchStage_def)

subsection \<open>Widening a range\<close>

lemma js_le_trans: "js_le a b \<Longrightarrow> js_le b c \<Longrightarrow> js_le a c"
  by (cases a; cases b; cases c) auto

lemma subseq_filter_mono: "(\<And>x. P x \<Longrightarrow> Q x) \<Longrightarrow> subseq (filter P xs) (filter Q xs)"
  by (induction xs) auto

lemma keeps_cost_min:
  "js_le lo' lo \<Longrightarrow> keeps (st\<lparr>costRange := [lo, b]\<rparr>) e \<Longrightarrow> keeps (st\<lparr>costRange := [lo', b]\<rparr>) e"
  by (auto simp: keeps_def costPasses_pair dest: js_le_trans)

lemma keeps_cost_max:
  "js_le hi hi' \<Longrightarrow> keeps (st\<lparr>costRange := [a, hi]\<rparr>) e \<Longrightarrow> keeps (st\<lparr>costRange := [a, hi']\<rparr>) e"
  by (auto simp: keeps_def costPasses_pair dest: js_le_trans)

lemma keeps_duration_min:
  "js_le lo' lo \<Longrightarrow> keeps (st\<lparr>durationRange := [lo, b]\<rparr>) e \<Longrightarrow> keeps (st\<lparr>durationRange := [lo', b]\<rparr>) e"
  by (auto simp: keeps_def durationPasses_pair dest: js_le_trans)

lemma keeps_duration_max:
  "js_le hi hi' \<Longrightarrow> keeps (st\<lparr>durationRange := [a, hi]\<rparr>) e \<Longrightarrow> keeps (st\<lparr>durationRange := [a, hi']\<rparr>) e"
  by (auto simp: keeps_def durationPasses_pair dest: js_le_trans)

text \<open>
  C5. Lowering the lower bound or raising the upper bound of the cost range or of the
  duration range, everything else unchanged, never loses an event: the old visible
  set is a subsequence, hence a subset, of the new one.
\<close>

theorem C5_widening_monotone:
  assumes lo: "js_le lo' lo" and hi: "js_le hi hi'"
  shows
    "subseq (visible (st\<lparr>costRange := [lo, b]\<rparr>)) (visible (st\<lparr>costRange := [lo', b]\<rparr>)) \<and>
     subseq (visible (st\<lparr>costRange := [a, hi]\<rparr>)) (visible (st\<lparr>costRange := [a, hi']\<rparr>)) \<and>
     subseq (visible (st\<lparr>durationRange := [lo, b]\<rparr>)) (visible (st\<lparr>durationRange := [lo', b]\<rparr>)) \<and>
     subseq (visible (st\<lparr>durationRange := [a, hi]\<rparr>)) (visible (st\<lparr>durationRange := [a, hi']\<rparr>)) \<and>
     set (visible (st\<lparr>costRange := [lo, b]\<rparr>)) \<subseteq> set (visible (st\<lparr>costRange := [lo', b]\<rparr>)) \<and>
     set (visible (st\<lparr>costRange := [a, hi]\<rparr>)) \<subseteq> set (visible (st\<lparr>costRange := [a, hi']\<rparr>)) \<and>
     set (visible (st\<lparr>durationRange := [lo, b]\<rparr>)) \<subseteq> set (visible (st\<lparr>durationRange := [lo', b]\<rparr>)) \<and>
     set (visible (st\<lparr>durationRange := [a, hi]\<rparr>)) \<subseteq> set (visible (st\<lparr>durationRange := [a, hi']\<rparr>))"
proof -
  have 1: "subseq (visible (st\<lparr>costRange := [lo, b]\<rparr>)) (visible (st\<lparr>costRange := [lo', b]\<rparr>))"
    using subseq_filter_mono [of "keeps (st\<lparr>costRange := [lo, b]\<rparr>)" "keeps (st\<lparr>costRange := [lo', b]\<rparr>)" "events st"]
      keeps_cost_min [OF lo] by (simp add: visible_filter)
  have 2: "subseq (visible (st\<lparr>costRange := [a, hi]\<rparr>)) (visible (st\<lparr>costRange := [a, hi']\<rparr>))"
    using subseq_filter_mono [of "keeps (st\<lparr>costRange := [a, hi]\<rparr>)" "keeps (st\<lparr>costRange := [a, hi']\<rparr>)" "events st"]
      keeps_cost_max [OF hi] by (simp add: visible_filter)
  have 3: "subseq (visible (st\<lparr>durationRange := [lo, b]\<rparr>)) (visible (st\<lparr>durationRange := [lo', b]\<rparr>))"
    using subseq_filter_mono [of "keeps (st\<lparr>durationRange := [lo, b]\<rparr>)" "keeps (st\<lparr>durationRange := [lo', b]\<rparr>)" "events st"]
      keeps_duration_min [OF lo] by (simp add: visible_filter)
  have 4: "subseq (visible (st\<lparr>durationRange := [a, hi]\<rparr>)) (visible (st\<lparr>durationRange := [a, hi']\<rparr>))"
    using subseq_filter_mono [of "keeps (st\<lparr>durationRange := [a, hi]\<rparr>)" "keeps (st\<lparr>durationRange := [a, hi']\<rparr>)" "events st"]
      keeps_duration_max [OF hi] by (simp add: visible_filter)
  have 5: "set (visible (st\<lparr>costRange := [lo, b]\<rparr>)) \<subseteq> set (visible (st\<lparr>costRange := [lo', b]\<rparr>))"
    using keeps_cost_min [OF lo, of b st] by (auto simp: visible_filter)
  have 6: "set (visible (st\<lparr>costRange := [a, hi]\<rparr>)) \<subseteq> set (visible (st\<lparr>costRange := [a, hi']\<rparr>))"
    using keeps_cost_max [OF hi, of a st] by (auto simp: visible_filter)
  have 7: "set (visible (st\<lparr>durationRange := [lo, b]\<rparr>)) \<subseteq> set (visible (st\<lparr>durationRange := [lo', b]\<rparr>))"
    using keeps_duration_min [OF lo, of b st] by (auto simp: visible_filter)
  have 8: "set (visible (st\<lparr>durationRange := [a, hi]\<rparr>)) \<subseteq> set (visible (st\<lparr>durationRange := [a, hi']\<rparr>))"
    using keeps_duration_max [OF hi, of a st] by (auto simp: visible_filter)
  from 1 2 3 4 5 6 7 8 show ?thesis
    by blast
qed

theorem C5_widening_monotone_witness:
  "js_le (Fin 0) (Fin 20) \<and> js_le (Fin 50) (Fin 100) \<and>
   subseq (visible (wideState\<lparr>costRange := [Fin 20, Fin 50]\<rparr>)) (visible (wideState\<lparr>costRange := [Fin 0, Fin 50]\<rparr>)) \<and>
   subseq (visible (wideState\<lparr>costRange := [Fin 0, Fin 50]\<rparr>)) (visible (wideState\<lparr>costRange := [Fin 0, Fin 100]\<rparr>)) \<and>
   visible (wideState\<lparr>costRange := [Fin 20, Fin 50]\<rparr>) = [] \<and>
   visible (wideState\<lparr>costRange := [Fin 0, Fin 50]\<rparr>) = [foodEvent] \<and>
   visible (wideState\<lparr>costRange := [Fin 0, Fin 100]\<rparr>) = [foodEvent, sportsEvent]"
proof -
  have lo: "js_le (Fin 0) (Fin 20)" and hi: "js_le (Fin 50) (Fin 100)"
    by simp_all
  show ?thesis
    using C5_widening_monotone [OF lo hi, of "Fin 50" wideState "Fin 0"]
    by (simp add: visible_filter passes_defs sample_defs wideState_def)
qed

subsection \<open>Fields that are not numbers\<close>

lemma StringToNumber_abc: "StringToNumber (str ''abc'') = NaN"
  by code_simp

lemma js_le_NaN_right [simp]: "js_le a NaN = False"
  by (cases a) auto

lemma not_keeps_NaN:
  "Number (costPerPerson e) = NaN \<or> Number (durationHours e) = NaN \<Longrightarrow> \<not> keeps st e"
  by (auto simp: keeps_def costPasses_def durationPasses_def js_ge_def Let_def)

lemma isError_costRejected [simp]: "isError (costRejected rng e) = False"
  by (simp add: costRejected_def)

lemma isError_durationRejected [simp]: "isError (durationRejected rng e) = False"
  by (simp add: durationRejected_def)

lemma filterEvents_no_error: "\<not> list_ex isError (snd (filterEvents st))"
  by (auto simp: filterEvents_def Let_def filterLogging_eq list_ex_iff)

lemma keeps_events_update [simp]: "keeps (st\<lparr>events := xs\<rparr>) = keeps st"
  by (simp add: keeps_def fun_eq_iff)

lemma costRejected_logged:
  assumes "e \<in> set (categoryStage (selectedCategories st) (searchStage (searchQuery st) (events st)))"
    and "\<not> costPasses (costRange st) e"
  shows "costRejected (costRange st) e \<in> set (snd (filterEvents st))"
  using assms
  by (auto simp: filterEvents_def Let_def filterLogging_eq split_def searchStage_def categoryStage_def)

text \<open>
  C6, as the code has it. An event whose cost or duration does not coerce to a number
  (\<^verbatim>\<open>Number\<close> gives NaN) is never visible, and the catalog is filtered as if that
  event were not in it. No error is reported, for this or any other catalog: every
  line \<^verbatim>\<open>filterEvents\<close> writes goes through \<^verbatim>\<open>console.log\<close>. When the event reaches
  the cost filter with a cost that is NaN, the line written for it is the rejection
  line of an event that is out of range.
\<close>

theorem C6_malformed_dropped_without_error:
  assumes "Number (costPerPerson e) = NaN \<or> Number (durationHours e) = NaN"
  shows "e \<notin> set (visible st) \<and>
         visible (st\<lparr>events := xs @ e # ys\<rparr>) = visible (st\<lparr>events := xs @ ys\<rparr>) \<and>
         \<not> list_ex isError (snd (filterEvents st)) \<and>
         (e \<in> set (categoryStage (selectedCategories st) (searchStage (searchQuery st) (events st))) \<and>
          Number (costPerPerson e) = NaN \<longrightarrow>
            console_log (MsgCostRejected (name e) NaN (index (costRange st) 0) (index (costRange st) 1))
              \<in> set (snd (filterEvents st)))"
proof -
  have "Number (costPerPerson e) = NaN \<Longrightarrow> \<not> costPasses (costRange st) e"
    by (simp add: costPasses_def js_ge_def)
  then show ?thesis
    using not_keeps_NaN [OF assms, of st] filterEvents_no_error [of st]
      costRejected_logged [of e st]
    by (auto simp: visible_filter costRejected_def)
qed

theorem C6_malformed_dropped_without_error_witness:
  "(Number (costPerPerson textCostEvent) = NaN \<or> Number (durationHours textCostEvent) = NaN) \<and>
   textCostEvent \<notin> set (visible malformedState) \<and>
   visible (malformedState\<lparr>events := [] @ textCostEvent # [nullCostEvent, foodEvent]\<rparr>) =
     visible (malformedState\<lparr>events := [] @ [nullCostEvent, foodEvent]\<rparr>) \<and>
   \<not> list_ex isError (snd (filterEvents malformedState)) \<and>
   console_log (MsgCostRejected (str ''Escape Room'') NaN (JNumber (Fin 0)) (JNumber (Fin 100)))
     \<in> set (snd (filterEvents malformedState))"
proof -
  have nan: "Number (costPerPerson textCostEvent) = NaN"
    by (simp add: textCostEvent_def sampleEvent_def StringToNumber_abc)
  then have hyp: "Number (costPerPerson textCostEvent) = NaN \<or> Number (durationHours textCostEvent) = NaN"
    by simp
  have reach: "textCostEvent \<in> set (categoryStage (selectedCategories malformedState)
                  (searchStage (searchQuery malformedState) (events malformedState)))"
    by (simp add: malformedState_def initialState_def searchStage_def categoryStage_def)
  have rng: "index (costRange malformedState) 0 = JNumber (Fin 0)"
    "index (costRange malformedState) 1 = JNumber (Fin 100)"
    "name textCostEvent = (str ''Escape Room'')"
    by (simp_all add: malformedState_def initialState_def index_def textCostEvent_def sampleEvent_def)
  show ?thesis
    using hyp nan reach rng
      C6_malformed_dropped_without_error [OF hyp, of malformedState "[]" "[nullCostEvent, foodEvent]"]
    by simp
qed

text \<open>
  The claim as stated fails on the three-event catalog \<open>malformedState\<close>: the cost "abc"
  is not coerced to a number, the event is dropped, and no error is reported; the
  event with a null cost is kept, its cost read as 0.
\<close>

theorem C6_counterexample:
  "Number (costPerPerson textCostEvent) = NaN \<and>
   textCostEvent \<in> set (events malformedState) \<and>
   textCostEvent \<notin> set (visible malformedState) \<and>
   \<not> list_ex isError (snd (filterEvents malformedState)) \<and>
   Number (costPerPerson nullCostEvent) = Fin 0 \<and>
   visible malformedState = [nullCostEvent, foodEvent]"
proof -
  have nan: "Number (costPerPerson textCostEvent) = NaN"
    by (simp add: textCostEvent_def sampleEvent_def StringToNumber_abc)
  have v: "visible malformedState = [nullCostEvent, foodEvent]"
    by (simp add: visible_filter passes_defs malformedState_def textCostEvent_def nullCostEvent_def
          sample_defs StringToNumber_abc)
  have "textCostEvent \<noteq> nullCostEvent" "textCostEvent \<noteq> foodEvent"
    by (simp_all add: textCostEvent_def nullCostEvent_def sample_defs)
  with nan v show ?thesis
    by (simp add: filterEvents_no_error malformedState_def nullCostEvent_def sample_defs)
qed

section \<open>Properties of the random pick\<close>

text \<open>
  The draw is below 1, so it is at most \<open>1 - 2\<^sup>-\<^sup>5\<^sup>3\<close>; rounding the product to 53 bits adds
  at most half a unit in the last place, a relative error of at most \<open>2\<^sup>-\<^sup>5\<^sup>3\<close>. The
  rounded product therefore stays below the length, and its floor is an index of the
  array.
\<close>

lemma bitLength_bounds: "n \<noteq> 0 \<Longrightarrow> 2 ^ (bitLength n - 1) \<le> n \<and> n < 2 ^ bitLength n"
proof (induction n rule: bitLength.induct)
  case (1 n)
  show ?case
  proof (cases "n div 2 = 0")
    case True
    with "1.prems" have "n = 1"
      by (simp add: div_eq_0_iff)
    then show ?thesis
      by (simp add: bitLength.simps [of "Suc 0"] bitLength.simps [of 0])
  next
    case False
    with "1.IH" "1.prems" have ih: "2 ^ (bitLength (n div 2) - 1) \<le> n div 2" "n div 2 < 2 ^ bitLength (n div 2)"
      by simp_all
    from False have pos: "bitLength (n div 2) \<noteq> 0"
      by (subst bitLength.simps) simp
    have b: "bitLength n = Suc (bitLength (n div 2))"
      using "1.prems" by (subst bitLength.simps) simp
    have "2 * 2 ^ (bitLength (n div 2) - 1) \<le> n"
      using ih(1) by linarith
    moreover have "2 * 2 ^ (bitLength (n div 2) - 1) = (2::nat) ^ bitLength (n div 2)"
      using pos by (cases "bitLength (n div 2)") simp_all
    moreover have "n < 2 * 2 ^ bitLength (n div 2)"
      using ih(2) by linarith
    ultimately show ?thesis
      by (simp add: b)
  qed
qed

lemma roundHalfEven_upper:
  assumes "0 < d"
  shows "2 * (roundHalfEven n d * d) \<le> 2 * n + d"
proof -
  have n: "n = n div d * d + n mod d"
    by simp
  have r: "n mod d < d"
    using assms by simp
  have "2 * (n div d * d) \<le> 2 * n + d"
    by (metis n le_add1 mult_le_mono2 trans_le_add1)
  moreover have "2 * ((n div d + 1) * d) \<le> 2 * n + d" if "d \<le> 2 * (n mod d)"
  proof -
    have "2 * ((n div d + 1) * d) = 2 * (n div d * d) + 2 * d"
      by (simp add: algebra_simps)
    also have "\<dots> \<le> 2 * (n div d * d) + 2 * (n mod d) + d"
      using that by simp
    also have "\<dots> = 2 * n + d"
      using n by (metis add_mult_distrib2)
    finally show ?thesis .
  qed
  ultimately show ?thesis
    by (auto simp: roundHalfEven_def Let_def)
qed

lemma draw_below_one:
  assumes m: "m < (2::nat) ^ 53" and lt: "real m * 2 powi e < 1"
  shows "real m * 2 powi e \<le> 1 - 1 / 2 ^ 53"
proof (cases "0 \<le> e")
  case True
  then have "(1::real) \<le> 2 powi e"
    by (simp add: one_le_power_int)
  have "m = 0"
  proof (rule ccontr)
    assume "m \<noteq> 0"
    then have "1 \<le> real m" by simp
    with \<open>1 \<le> 2 powi e\<close> have "1 * 1 \<le> real m * 2 powi e"
      by (intro mult_mono) simp_all
    with lt show False by simp
  qed
  then show ?thesis by simp
next
  case False
  define k where "k = nat (- e)"
  from False have e: "e = - int k"
    by (simp add: k_def)
  have p: "(2::real) powi e = 1 / 2 ^ k"
    by (simp add: e power_int_minus field_simps)
  from lt have "real m < 2 ^ k"
    by (simp add: p field_simps)
  then have mk: "m < 2 ^ k"
    by (metis of_nat_less_iff of_nat_numeral of_nat_power)
  show ?thesis
  proof (cases "k \<le> 53")
    case True
    from mk have "real m + 1 \<le> 2 ^ k"
      by (metis Suc_leI of_nat_Suc of_nat_le_iff of_nat_numeral of_nat_power add.commute)
    then have a: "real m / 2 ^ k \<le> 1 - 1 / 2 ^ k"
      by (simp add: field_simps)
    have "(2::real) ^ k \<le> 2 ^ 53"
      using True by (intro power_increasing) simp_all
    then have "(1::real) / 2 ^ 53 \<le> 1 / 2 ^ k"
      by (intro divide_left_mono) simp_all
    with a have "real m / 2 ^ k \<le> 1 - 1 / 2 ^ 53"
      by linarith
    then show ?thesis
      by (simp only: p mult_1 times_divide_eq_right mult.right_neutral)
  next
    case False
    then have "(2::real) ^ 54 \<le> 2 ^ k"
      by (intro power_increasing) simp_all
    moreover from m have "real m < 2 ^ 53"
      by (metis of_nat_less_iff of_nat_numeral of_nat_power)
    ultimately have "real m * 2 \<le> 2 ^ k"
      by simp
    then have "real m / 2 ^ k \<le> 1 / 2"
      by (simp add: field_simps)
    moreover have "(1::real) / 2 \<le> 1 - 1 / 2 ^ 53"
      by simp
    ultimately have "real m / 2 ^ k \<le> 1 - 1 / 2 ^ 53"
      by linarith
    then show ?thesis
      by (simp only: p mult_1 times_divide_eq_right mult.right_neutral)
  qed
qed


lemma floorOf_eq: "floorOf d = \<lfloor>valueOf d\<rfloor>"
proof (cases "0 \<le> exponent d")
  case True
  then have "valueOf d = of_int (int (mantissa d) * 2 ^ nat (exponent d))"
    by (simp add: valueOf_def power_int_def)
  then show ?thesis
    using True by (simp only: floorOf_def floor_of_int if_True)
next
  case False
  then have "valueOf d = real_of_int (int (mantissa d)) / real_of_int (2 ^ nat (- exponent d))"
    by (simp add: valueOf_def power_int_def field_simps)
  then show ?thesis
    using False by (simp only: floorOf_def floor_divide_of_int_eq if_False)
qed

lemma timesLength_below:
  assumes m: "mantissa d < 2 ^ 53" and lt: "valueOf d < 1" and n: "0 < n"
  shows "valueOf (timesLength d n) < real n"
proof (cases "mantissa d * n < 2 ^ 53")
  case True
  then have "valueOf (timesLength d n) = valueOf d * real n"
    by (simp add: timesLength_def valueOf_def)
  also have "\<dots> < 1 * real n"
    using lt n by (intro mult_strict_right_mono) simp_all
  finally show ?thesis
    by simp
next
  case False
  define M where "M = mantissa d * n"
  define s where "s = bitLength M - 53"
  define R where "R = roundHalfEven M (2 ^ s)"
  from False have big: "2 ^ 53 \<le> M"
    by (simp add: M_def)
  then have M0: "M \<noteq> 0"
    by auto
  from bitLength_bounds [OF M0] have b: "2 ^ (bitLength M - 1) \<le> M" "M < 2 ^ bitLength M"
    by simp_all
  have "(2::nat) ^ 53 < 2 ^ bitLength M"
    using big b(2) by linarith
  then have len: "53 < bitLength M"
    by (rule power_less_imp_less_exp [rotated]) simp
  then have "bitLength M - 1 = s + 52"
    by (simp add: s_def)
  with b(1) have "(2::nat) ^ s * 2 ^ 52 \<le> M"
    by (simp add: power_add)
  then have "real (2 ^ s * 2 ^ 52) \<le> real M"
    by (simp only: of_nat_le_iff)
  then have sreal: "(2::real) ^ s * 2 ^ 52 \<le> real M"
    by simp
  have "2 * (R * 2 ^ s) \<le> 2 * M + 2 ^ s"
    unfolding R_def by (rule roundHalfEven_upper) simp
  then have "real (2 * (R * 2 ^ s)) \<le> real (2 * M + 2 ^ s)"
    by (simp only: of_nat_le_iff)
  then have "2 * (real R * 2 ^ s) \<le> 2 * real M + 2 ^ s"
    by simp
  with sreal have up: "real R * 2 ^ s \<le> real M * (1 + 1 / 2 ^ 53)"
    by (simp add: algebra_simps)
  have tl: "timesLength d n = Double R (exponent d + int s)"
    using False by (simp add: timesLength_def Let_def M_def s_def R_def)
  have "(2::real) powi (exponent d + int s) = 2 ^ s * 2 powi exponent d"
    by (simp add: power_int_add)
  then have v: "valueOf (timesLength d n) = real R * 2 ^ s * 2 powi exponent d"
    by (simp add: tl valueOf_def)
  have x: "valueOf d \<le> 1 - 1 / 2 ^ 53"
    using draw_below_one [OF m] lt by (simp add: valueOf_def)
  have pos: "(0::real) \<le> 2 powi exponent d"
    by simp
  have "valueOf (timesLength d n) \<le> real M * (1 + 1 / 2 ^ 53) * 2 powi exponent d"
    unfolding v using up pos by (rule mult_right_mono)
  also have "\<dots> = valueOf d * (real n * (1 + 1 / 2 ^ 53))"
    by (simp add: M_def valueOf_def)
  also have "\<dots> \<le> (1 - 1 / 2 ^ 53) * (real n * (1 + 1 / 2 ^ 53))"
    using x by (intro mult_right_mono) simp_all
  also have "\<dots> = real n * (1 - 1 / 2 ^ 106)"
    by (simp add: algebra_simps)
  also have "\<dots> < real n * 1"
    using n by (intro mult_strict_left_mono) simp_all
  finally show ?thesis
    by simp
qed

lemma index_in_range:
  assumes "isDouble d" "valueOf d < 1" "0 < n"
  shows "0 \<le> floorOf (timesLength d n) \<and> floorOf (timesLength d n) < int n"
proof -
  have "0 \<le> valueOf (timesLength d n)"
    by (simp add: valueOf_def)
  moreover have "valueOf (timesLength d n) < real n"
    using assms by (intro timesLength_below) (simp_all add: isDouble_def)
  ultimately show ?thesis
    by (simp add: floorOf_eq floor_less_iff)
qed

text \<open>
  C8. For every draw \<open>r\<close> of \<^verbatim>\<open>Math.random()\<close>, that is a double with \<open>0 \<le> r < 1\<close>: when the
  filtered list is not empty, \<^verbatim>\<open>surpriseMe\<close> opens one of its elements and changes
  nothing else; when it is empty, the state is returned as it is, so the current
  selection stays. The same holds right after \<^verbatim>\<open>filterEvents\<close>, where the filtered list
  is the visible set. The index is the floor of the product as the machine computes it,
  rounded to the nearest double.
\<close>

theorem C8_surprise:
  assumes "isDouble r" and "valueOf r < 1"
  shows "(filteredEvents st \<noteq> [] \<longrightarrow>
            (\<exists>e. e \<in> set (filteredEvents st) \<and> surpriseMe r st = st\<lparr>selectedEvent := Some e\<rparr>)) \<and>
         (filteredEvents st = [] \<longrightarrow> surpriseMe r st = st) \<and>
         (visible st \<noteq> [] \<longrightarrow>
            (\<exists>e. e \<in> set (visible st) \<and>
                 selectedEvent (surpriseMe r (fst (filterEvents st))) = Some e)) \<and>
         (visible st = [] \<longrightarrow>
            selectedEvent (surpriseMe r (fst (filterEvents st))) = selectedEvent st)"
proof -
  have a: "\<exists>e. e \<in> set (filteredEvents s) \<and> surpriseMe r s = s\<lparr>selectedEvent := Some e\<rparr>"
    if "filteredEvents s \<noteq> []" for s
  proof -
    define i where "i = floorOf (timesLength r (length (filteredEvents s)))"
    from that have n: "0 < length (filteredEvents s)"
      by simp
    from index_in_range [OF assms n]
    have i: "0 \<le> i" "i < int (length (filteredEvents s))"
      by (simp_all add: i_def)
    then have "nat i < length (filteredEvents s)"
      by linarith
    then have "filteredEvents s ! nat i \<in> set (filteredEvents s)"
      by (rule nth_mem)
    moreover have "surpriseMe r s = s\<lparr>selectedEvent := Some (filteredEvents s ! nat i)\<rparr>"
      using n i by (simp add: surpriseMe_def Let_def i_def [symmetric])
    ultimately show ?thesis
      by blast
  qed
  have b: "surpriseMe r s = s" if "filteredEvents s = []" for s
    using that by (simp add: surpriseMe_def)
  have f: "filteredEvents (fst (filterEvents st)) = visible st"
    by (simp add: visible_def)
  have g: "selectedEvent (fst (filterEvents st)) = selectedEvent st"
    by (simp add: filterEvents_def Let_def split_def)
  from a [of st] b [of st] a [of "fst (filterEvents st)"] b [of "fst (filterEvents st)"] f g
  show ?thesis
    by (metis AppState.select_convs(7) AppState.surjective AppState.update_convs(7))
qed

theorem C8_surprise_witness:
  "isDouble oneThird \<and> valueOf oneThird < 1 \<and>
   filteredEvents pickState = [foodEvent, sportsEvent, artEvent] \<and>
   timesLength oneThird 3 = Double 9007199254740992 (- 53) \<and>
   selectedEvent (surpriseMe oneThird pickState) = Some sportsEvent \<and>
   filteredEvents emptyPickState = [] \<and>
   surpriseMe oneThird emptyPickState = emptyPickState \<and>
   selectedEvent (surpriseMe oneThird emptyPickState) = Some foodEvent"
proof -
  have h: "isDouble oneThird" "valueOf oneThird < 1"
    by (simp_all add: isDouble_def valueOf_def oneThird_def power_int_minus)
  have p: "filteredEvents pickState = [foodEvent, sportsEvent, artEvent]"
    using visible_filter [of "initialState\<lparr>events := [foodEvent, sportsEvent, artEvent],
      selectedEvent := Some foodEvent\<rparr>"]
    by (simp add: pickState_def visible_def [symmetric] passes_defs sample_defs artEvent_def)
  have q: "filteredEvents emptyPickState = []"
    using visible_filter [of "initialState\<lparr>events := [foodEvent, sportsEvent, artEvent],
      costRange := [Fin 95, Fin 100], selectedEvent := Some foodEvent\<rparr>"]
    by (simp add: emptyPickState_def visible_def [symmetric] passes_defs sample_defs artEvent_def)
  have s: "selectedEvent emptyPickState = Some foodEvent"
    by (simp add: emptyPickState_def filterEvents_def Let_def split_def initialState_def)
  have x: "timesLength oneThird 3 = Double 9007199254740992 (- 53)"
    by code_simp
  have y: "floorOf (Double 9007199254740992 (- 53)) = 1"
    by code_simp
  have l: "length (filteredEvents pickState) = 3"
    by (simp add: p)
  have t: "selectedEvent (surpriseMe oneThird pickState) = Some sportsEvent"
    by (simp add: surpriseMe_def Let_def l x y, simp add: p)
  from C8_surprise [OF h, of emptyPickState] C8_surprise [OF h, of pickState] h p q s t x
  show ?thesis
    by simp
qed

section \<open>Properties of the favorites\<close>

lemmas world_defs = signedIn_def outOfSync_def emptyWorld_def initialState_def alice_def
  okEnv_def failingEnv_def

subsection \<open>Loading without a user\<close>

text \<open>
  C9, as the code has it. With nobody signed in, \<^verbatim>\<open>loadFavorites\<close> returns at once: it
  reads nothing, reports nothing and leaves the favorites set as it was. The set is
  empty afterwards exactly when it was empty before, as it is after start-up.
\<close>

theorem C9_load_without_user_leaves_set:
  assumes "user (app w) = None"
  shows "loadFavorites env w = w \<and>
         favorites (app (loadFavorites env w)) = favorites (app w) \<and>
         calls (loadFavorites env w) = calls w \<and>
         console (loadFavorites env w) = console w"
  using assms by (simp add: loadFavorites_def)

theorem C9_load_without_user_leaves_set_witness:
  "user (app signedOutStale) = None \<and>
   loadFavorites okEnv signedOutStale = signedOutStale \<and>
   favorites (app (loadFavorites okEnv emptyWorld)) = {}"
proof -
  have h: "user (app signedOutStale) = None" "user (app emptyWorld) = None"
    by (simp_all add: signedOutStale_def emptyWorld_def initialState_def)
  from C9_load_without_user_leaves_set [OF h(1), of okEnv]
    C9_load_without_user_leaves_set [OF h(2), of okEnv] h
  show ?thesis
    by (simp add: emptyWorld_def initialState_def)
qed

text \<open>
  The claim as stated fails when a set is left over from an earlier session: it is still
  there after the load.
\<close>

theorem C9_counterexample:
  "user (app signedOutStale) = None \<and>
   favorites (app (loadFavorites okEnv signedOutStale)) = {(str ''e1'')} \<and>
   favorites (app (loadFavorites okEnv signedOutStale)) \<noteq> {}"
  by (simp add: loadFavorites_def signedOutStale_def emptyWorld_def initialState_def)

subsection \<open>Toggling\<close>

lemma length_removeRecord:
  "i \<in> recordId ` set table \<Longrightarrow> Suc (length (removeRecord i table)) = length table"
  by (induction table) auto

lemma favorites_delete_found:
  "r \<in> set table \<Longrightarrow> favorites_delete (recordId r) table = Inr (removeRecord (recordId r) table)"
  by (auto simp: favorites_delete_def)

lemma matching_Cons_in:
  "matching u eid w = r # rs \<Longrightarrow> r \<in> set (favoritesDb w)"
  by (metis filter_is_subset list.set_intros(1) matching_def favorites_list_def subsetD)

text \<open>The three ways a toggle can go when nothing fails.\<close>

lemma toggle_absent:
  assumes "user (app w) = Some u" "succeeds env" "eid \<notin> favorites (app w)"
  shows "toggleFavorite env eid w =
           w\<lparr>calls := calls w @ [FavoritesCreate (newRecord env u eid)],
             favoritesDb := favoritesDb w @ [newRecord env u eid],
             app := (app w)\<lparr>favorites := insert eid (favorites (app w))\<rparr>\<rparr>"
  using assms
  by (simp add: toggleFavorite_def succeeds_def newRecord_def favorites_create_def Let_def)

lemma toggle_present_found:
  assumes "user (app w) = Some u" "succeeds env" "eid \<in> favorites (app w)"
    and "matching u eid w = r # rs"
  shows "toggleFavorite env eid w =
           w\<lparr>calls := calls w @ [FavoritesList (userId' u) (Some eid), FavoritesDelete (recordId r)],
             favoritesDb := removeRecord (recordId r) (favoritesDb w),
             app := (app w)\<lparr>favorites := favorites (app w) - {eid}\<rparr>\<rparr>"
  using assms favorites_delete_found [OF matching_Cons_in [OF assms(4)]]
  by (simp add: toggleFavorite_def succeeds_def matching_def Let_def)

lemma toggle_present_missing:
  assumes "user (app w) = Some u" "succeeds env" "eid \<in> favorites (app w)"
    and "matching u eid w = []"
  shows "toggleFavorite env eid w =
           w\<lparr>calls := calls w @ [FavoritesList (userId' u) (Some eid)],
             app := (app w)\<lparr>favorites := favorites (app w) - {eid}\<rparr>\<rparr>"
  using assms
  by (simp add: toggleFavorite_def succeeds_def matching_def Let_def)

lemma toggle_failure:
  assumes "user (app w) = Some u"
    and "(eid \<notin> favorites (app w) \<and> createFails env) \<or>
         (eid \<in> favorites (app w) \<and> (listFails env \<or> (matching u eid w \<noteq> [] \<and> deleteFails env)))"
  shows "favorites (app (toggleFavorite env eid w)) = favorites (app w) \<and>
         favoritesDb (toggleFavorite env eid w) = favoritesDb w \<and>
         console (toggleFavorite env eid w) = console w @ [console_error MsgToggleFavoriteFailed]"
  using assms
  by (auto simp: toggleFavorite_def matching_def Let_def split: list.splits)

lemma toggle_twice:
  assumes u: "user (app w) = Some u" and ok: "succeeds env" "succeeds env'"
    and sync: "eid \<in> favorites (app w) \<Longrightarrow> matching u eid w \<noteq> []"
  shows "favorites (app (toggleFavorite env' eid (toggleFavorite env eid w))) = favorites (app w) \<and>
         length (favoritesDb (toggleFavorite env' eid (toggleFavorite env eid w))) = length (favoritesDb w) \<and>
         length (writes (toggleFavorite env' eid (toggleFavorite env eid w))) = length (writes w) + 2"
proof (cases "eid \<in> favorites (app w)")
  case False
  let ?w1 = "toggleFavorite env eid w"
  have w1: "?w1 = w\<lparr>calls := calls w @ [FavoritesCreate (newRecord env u eid)],
             favoritesDb := favoritesDb w @ [newRecord env u eid],
             app := (app w)\<lparr>favorites := insert eid (favorites (app w))\<rparr>\<rparr>"
    by (rule toggle_absent [OF u ok(1) False])
  have u1: "user (app ?w1) = Some u" and in1: "eid \<in> favorites (app ?w1)"
    using u by (simp_all add: w1)
  have "matching u eid ?w1 = matching u eid w @ [newRecord env u eid]"
    by (simp add: w1 matching_def favorites_list_def newRecord_def)
  then obtain r rs where m1: "matching u eid ?w1 = r # rs"
    by (cases "matching u eid w") auto
  have "Suc (length (removeRecord (recordId r) (favoritesDb ?w1))) = length (favoritesDb ?w1)"
    using matching_Cons_in [OF m1] by (intro length_removeRecord) blast
  then show ?thesis
    unfolding toggle_present_found [OF u1 ok(2) in1 m1]
    using False by (simp add: w1 writes_def)
next
  case True
  let ?w1 = "toggleFavorite env eid w"
  from sync [OF True] obtain r rs where m: "matching u eid w = r # rs"
    by (cases "matching u eid w") auto
  have w1: "?w1 = w\<lparr>calls := calls w @ [FavoritesList (userId' u) (Some eid), FavoritesDelete (recordId r)],
             favoritesDb := removeRecord (recordId r) (favoritesDb w),
             app := (app w)\<lparr>favorites := favorites (app w) - {eid}\<rparr>\<rparr>"
    by (rule toggle_present_found [OF u ok(1) True m])
  have u1: "user (app ?w1) = Some u" and out1: "eid \<notin> favorites (app ?w1)"
    using u by (simp_all add: w1)
  have "Suc (length (removeRecord (recordId r) (favoritesDb w))) = length (favoritesDb w)"
    using matching_Cons_in [OF m] by (intro length_removeRecord) blast
  then show ?thesis
    unfolding toggle_absent [OF u1 ok(2) out1]
    using True by (auto simp: w1 writes_def)
qed

text \<open>
  C7, as the code has it. For a signed-in user, when the calls to the store succeed, one
  toggle flips the membership of the event in the favorites set. If the event was
  absent, the toggle makes exactly one write, a create, and the store has one record
  more. If it was present and the store has a record for this user and event, the
  toggle makes exactly one write, the delete of the first such record, and the store
  has one record less. If it was present and the store has no such record, the toggle
  makes no write and the store is unchanged. When every present event has its record,
  two toggles in a row restore the favorites set and the number of records, with two
  writes. When the call a toggle depends on fails, the set and the store stay as
  they were and the failure goes to \<^verbatim>\<open>console.error\<close>.
\<close>

theorem C7_toggle_favorite:
  assumes u: "user (app w) = Some u"
  shows
   "(succeeds env \<longrightarrow>
       (eid \<in> favorites (app (toggleFavorite env eid w))) = (eid \<notin> favorites (app w))) \<and>
    (succeeds env \<and> eid \<notin> favorites (app w) \<longrightarrow>
       writes (toggleFavorite env eid w) = writes w @ [FavoritesCreate (newRecord env u eid)] \<and>
       favoritesDb (toggleFavorite env eid w) = favoritesDb w @ [newRecord env u eid]) \<and>
    (succeeds env \<and> eid \<in> favorites (app w) \<and> matching u eid w \<noteq> [] \<longrightarrow>
       writes (toggleFavorite env eid w) =
         writes w @ [FavoritesDelete (recordId (hd (matching u eid w)))] \<and>
       Suc (length (favoritesDb (toggleFavorite env eid w))) = length (favoritesDb w)) \<and>
    (succeeds env \<and> eid \<in> favorites (app w) \<and> matching u eid w = [] \<longrightarrow>
       writes (toggleFavorite env eid w) = writes w \<and>
       favoritesDb (toggleFavorite env eid w) = favoritesDb w) \<and>
    (succeeds env \<and> succeeds env' \<and> (eid \<notin> favorites (app w) \<or> matching u eid w \<noteq> []) \<longrightarrow>
       favorites (app (toggleFavorite env' eid (toggleFavorite env eid w))) = favorites (app w) \<and>
       length (favoritesDb (toggleFavorite env' eid (toggleFavorite env eid w))) =
         length (favoritesDb w) \<and>
       length (writes (toggleFavorite env' eid (toggleFavorite env eid w))) = length (writes w) + 2) \<and>
    ((eid \<notin> favorites (app w) \<and> createFails env) \<or>
     (eid \<in> favorites (app w) \<and> (listFails env \<or> (matching u eid w \<noteq> [] \<and> deleteFails env))) \<longrightarrow>
       favorites (app (toggleFavorite env eid w)) = favorites (app w) \<and>
       favoritesDb (toggleFavorite env eid w) = favoritesDb w \<and>
       console (toggleFavorite env eid w) = console w @ [console_error MsgToggleFavoriteFailed])"
proof -
  have absent: "writes (toggleFavorite env eid w) = writes w @ [FavoritesCreate (newRecord env u eid)] \<and>
       favoritesDb (toggleFavorite env eid w) = favoritesDb w @ [newRecord env u eid] \<and>
       eid \<in> favorites (app (toggleFavorite env eid w))"
    if "succeeds env" "eid \<notin> favorites (app w)"
    unfolding toggle_absent [OF u that] by (simp add: writes_def)
  have found: "writes (toggleFavorite env eid w) =
         writes w @ [FavoritesDelete (recordId (hd (matching u eid w)))] \<and>
       Suc (length (favoritesDb (toggleFavorite env eid w))) = length (favoritesDb w) \<and>
       eid \<notin> favorites (app (toggleFavorite env eid w))"
    if ok: "succeeds env" and "eid \<in> favorites (app w)" and ne: "matching u eid w \<noteq> []"
  proof -
    from ne obtain r rs where m: "matching u eid w = r # rs"
      by (cases "matching u eid w") auto
    have "Suc (length (removeRecord (recordId r) (favoritesDb w))) = length (favoritesDb w)"
      using matching_Cons_in [OF m] by (intro length_removeRecord) blast
    then show ?thesis
      unfolding toggle_present_found [OF u ok that(2) m] by (simp add: writes_def m)
  qed
  have missing: "writes (toggleFavorite env eid w) = writes w \<and>
       favoritesDb (toggleFavorite env eid w) = favoritesDb w \<and>
       eid \<notin> favorites (app (toggleFavorite env eid w))"
    if "succeeds env" "eid \<in> favorites (app w)" "matching u eid w = []"
    unfolding toggle_present_missing [OF u that] by (simp add: writes_def)
  have twice: "favorites (app (toggleFavorite env' eid (toggleFavorite env eid w))) = favorites (app w) \<and>
       length (favoritesDb (toggleFavorite env' eid (toggleFavorite env eid w))) =
         length (favoritesDb w) \<and>
       length (writes (toggleFavorite env' eid (toggleFavorite env eid w))) = length (writes w) + 2"
    if "succeeds env" "succeeds env'" "eid \<notin> favorites (app w) \<or> matching u eid w \<noteq> []"
    using that toggle_twice [OF u that(1,2)] by blast
  show ?thesis
    using absent found missing twice toggle_failure [OF u, of eid env] by blast
qed

theorem C7_toggle_favorite_witness:
  "user (app signedIn) = Some alice \<and> succeeds okEnv \<and> (str ''e1'') \<notin> favorites (app signedIn) \<and>
   (str ''e1'') \<in> favorites (app (toggleFavorite okEnv (str ''e1'') signedIn)) \<and>
   writes (toggleFavorite okEnv (str ''e1'') signedIn) = [FavoritesCreate (newRecord okEnv alice (str ''e1''))] \<and>
   favoritesDb (toggleFavorite okEnv (str ''e1'') signedIn) = [newRecord okEnv alice (str ''e1'')] \<and>
   favorites (app (toggleFavorite okEnv (str ''e1'') (toggleFavorite okEnv (str ''e1'') signedIn))) = {} \<and>
   length (favoritesDb (toggleFavorite okEnv (str ''e1'') (toggleFavorite okEnv (str ''e1'') signedIn))) = 0 \<and>
   length (writes (toggleFavorite okEnv (str ''e1'') (toggleFavorite okEnv (str ''e1'') signedIn))) = 2 \<and>
   user (app syncedWorld) = Some alice \<and> (str ''e1'') \<in> favorites (app syncedWorld) \<and>
   matching alice (str ''e1'') syncedWorld = [newRecord okEnv alice (str ''e1'')] \<and>
   (str ''e1'') \<notin> favorites (app (toggleFavorite okEnv (str ''e1'') syncedWorld)) \<and>
   writes (toggleFavorite okEnv (str ''e1'') syncedWorld) = writes syncedWorld @ [FavoritesDelete (str ''fav_1'')] \<and>
   length (favoritesDb (toggleFavorite okEnv (str ''e1'') syncedWorld)) = 0 \<and>
   user (app outOfSync) = Some alice \<and> (str ''e1'') \<in> favorites (app outOfSync) \<and>
   matching alice (str ''e1'') outOfSync = [] \<and>
   (str ''e1'') \<notin> favorites (app (toggleFavorite okEnv (str ''e1'') outOfSync)) \<and>
   writes (toggleFavorite okEnv (str ''e1'') outOfSync) = [] \<and>
   favoritesDb (toggleFavorite okEnv (str ''e1'') outOfSync) = [] \<and>
   createFails failingEnv \<and> listFails failingEnv \<and>
   favorites (app (toggleFavorite failingEnv (str ''e1'') signedIn)) = {} \<and>
   favoritesDb (toggleFavorite failingEnv (str ''e1'') signedIn) = [] \<and>
   console (toggleFavorite failingEnv (str ''e1'') signedIn) = [console_error MsgToggleFavoriteFailed] \<and>
   (str ''e1'') \<in> favorites (app (toggleFavorite failingEnv (str ''e1'') syncedWorld)) \<and>
   length (favoritesDb (toggleFavorite failingEnv (str ''e1'') syncedWorld)) = 1"
proof -
  have u: "user (app signedIn) = Some alice" and ok: "succeeds okEnv"
    and out: "(str ''e1'') \<notin> favorites (app signedIn)" and f: "createFails failingEnv"
    and e: "writes signedIn = []" "favoritesDb signedIn = []" "favorites (app signedIn) = {}"
      "console signedIn = []"
    by (simp_all add: world_defs succeeds_def writes_def)
  note a = C7_toggle_favorite [OF u, of okEnv "(str ''e1'')" okEnv]
  have s: "syncedWorld = signedIn\<lparr>calls := calls signedIn @ [FavoritesCreate (newRecord okEnv alice (str ''e1''))],
             favoritesDb := favoritesDb signedIn @ [newRecord okEnv alice (str ''e1'')],
             app := (app signedIn)\<lparr>favorites := insert (str ''e1'') (favorites (app signedIn))\<rparr>\<rparr>"
    unfolding syncedWorld_def by (rule toggle_absent [OF u ok out])
  have u2: "user (app syncedWorld) = Some alice" and in2: "(str ''e1'') \<in> favorites (app syncedWorld)"
    and m2: "matching alice (str ''e1'') syncedWorld = [newRecord okEnv alice (str ''e1'')]"
    and l2: "length (favoritesDb syncedWorld) = 1"
    by (simp_all add: s u e matching_def favorites_list_def newRecord_def alice_def)
  note b = C7_toggle_favorite [OF u2, of okEnv "(str ''e1'')" okEnv]
  note c = C7_toggle_favorite [OF u, of failingEnv "(str ''e1'')" okEnv]
  note d = C7_toggle_favorite [OF u2, of failingEnv "(str ''e1'')" okEnv]
  have u3: "user (app outOfSync) = Some alice" and in3: "(str ''e1'') \<in> favorites (app outOfSync)"
    and m3: "matching alice (str ''e1'') outOfSync = []"
    and e3: "writes outOfSync = []" "favoritesDb outOfSync = []"
    by (simp_all add: world_defs matching_def favorites_list_def writes_def)
  note g = C7_toggle_favorite [OF u3, of okEnv "(str ''e1'')" okEnv]
  have id: "recordId (newRecord okEnv alice (str ''e1'')) = (str ''fav_1'')"
    by (simp add: newRecord_def okEnv_def)
  have f': "listFails failingEnv"
    by (simp add: failingEnv_def)
  from a b c d g show ?thesis
    using u ok out f f' e u2 in2 m2 l2 id u3 in3 m3 e3 by simp
qed

text \<open>
  The claim as stated fails in \<open>outOfSync\<close>: the event is in the set, no record matches,
  and the toggle removes it without any write; a second toggle then creates a record,
  so two toggles change the number of records. It also fails when the store rejects the
  create: the membership is not flipped.
\<close>

theorem C7_counterexample:
  "user (app outOfSync) = Some alice \<and> succeeds okEnv \<and>
   (str ''e1'') \<in> favorites (app outOfSync) \<and>
   (str ''e1'') \<notin> favorites (app (toggleFavorite okEnv (str ''e1'') outOfSync)) \<and>
   writes outOfSync = [] \<and>
   writes (toggleFavorite okEnv (str ''e1'') outOfSync) = [] \<and>
   length (favoritesDb outOfSync) = 0 \<and>
   length (favoritesDb (toggleFavorite okEnv (str ''e1'') (toggleFavorite okEnv (str ''e1'') outOfSync))) = 1 \<and>
   user (app signedIn) = Some alice \<and>
   (str ''e1'') \<notin> favorites (app signedIn) \<and>
   (str ''e1'') \<notin> favorites (app (toggleFavorite failingEnv (str ''e1'') signedIn))"
  by (simp add: toggleFavorite_def favorites_list_def favorites_create_def Let_def writes_def
        succeeds_def world_defs)

section \<open>Properties of the catalog load\<close>

lemma loadFavorites_frame [simp]:
  "eventsDb (loadFavorites env w) = eventsDb w"
  "inFlight (loadFavorites env w) = inFlight w"
  "events (app (loadFavorites env w)) = events (app w)"
  "selectedCity (app (loadFavorites env w)) = selectedCity (app w)"
  "user (app (loadFavorites env w)) = user (app w)"
  "loading (app (loadFavorites env w)) = loading (app w)"
  by (simp_all add: loadFavorites_def Let_def split: option.splits)

lemmas load_defs = selectCity_def loadEffect_def loadEvents_request_def loadEvents_resolve_def
  loadEvents_reject_def

lemma eventsDb_step [simp]: "eventsDb (step s w) = eventsDb w"
  by (cases s) (simp_all add: load_defs Let_def)

lemma events_step:
  "events (app (step s w)) =
     (case s of
        Resolve k \<Rightarrow> if k < length (inFlight w) then map formatEvent (eventsDb w (inFlight w ! k))
                     else events (app w)
      | _ \<Rightarrow> events (app w))"
  by (cases s) (simp_all add: load_defs Let_def)

lemma events_run_gen:
  "events (app w) = (case c of None \<Rightarrow> base | Some d \<Rightarrow> map formatEvent (eventsDb w d)) \<Longrightarrow>
   events (app (run ss w)) =
     (case origin ss w c of None \<Rightarrow> base | Some d \<Rightarrow> map formatEvent (eventsDb w d))"
proof (induction ss arbitrary: w c)
  case Nil
  then show ?case by simp
next
  case (Cons s ss)
  define c' where "c' = (case s of
      Resolve k \<Rightarrow> if k < length (inFlight w) then Some (inFlight w ! k) else c | _ \<Rightarrow> c)"
  have "events (app (step s w)) =
          (case c' of None \<Rightarrow> base | Some d \<Rightarrow> map formatEvent (eventsDb (step s w) d))"
    unfolding events_step eventsDb_step c'_def using Cons.prems
    by (cases s) simp_all
  from Cons.IH [OF this] show ?case
    unfolding eventsDb_step c'_def by simp
qed

lemma events_run:
  "events (app (run ss w)) =
     (case origin ss w None of None \<Rightarrow> events (app w) | Some d \<Rightarrow> map formatEvent (eventsDb w d))"
  by (rule events_run_gen) simp

lemma stale_overwrite:
  assumes "user (app w) \<noteq> None" "\<not> loading (app w)"
    and "selectedCity (app w) = a" "inFlight w = [a]" "b \<noteq> a"
  shows "selectedCity (app (run [SelectCity env b, Resolve 1, Resolve 0] w)) = b \<and>
         events (app (run [SelectCity env b, Resolve 1] w)) = map formatEvent (eventsDb w b) \<and>
         events (app (run [SelectCity env b, Resolve 1, Resolve 0] w)) = map formatEvent (eventsDb w a)"
  using assms
  by (auto simp: load_defs Let_def dropAt_def)

text \<open>
  C10, as the code has it. Nothing is discarded: an answer that arrives replaces the
  catalog whichever city is selected by then, and the selected city stays as it is. So
  after any sequence of city changes, answers and failures, the catalog is the answer
  to the request that was answered last (order of completion, not of request), or the
  initial catalog if none was. In particular, when the city is changed from \<open>a\<close> to \<open>b\<close>
  while the request for \<open>a\<close> is pending and the answer for \<open>b\<close> arrives first, the late
  answer for \<open>a\<close> replaces the catalog of \<open>b\<close>.
\<close>

theorem C10_last_completion_wins:
  "events (app (run ss w)) =
     (case origin ss w None of
        None \<Rightarrow> events (app w)
      | Some d \<Rightarrow> map formatEvent (eventsDb w d)) \<and>
   (k < length (inFlight w) \<longrightarrow>
      events (app (step (Resolve k) w)) = map formatEvent (eventsDb w (inFlight w ! k)) \<and>
      selectedCity (app (step (Resolve k) w)) = selectedCity (app w)) \<and>
   (user (app w) \<noteq> None \<and> \<not> loading (app w) \<and> selectedCity (app w) = a \<and>
    inFlight w = [a] \<and> b \<noteq> a \<longrightarrow>
      selectedCity (app (run [SelectCity env b, Resolve 1, Resolve 0] w)) = b \<and>
      events (app (run [SelectCity env b, Resolve 1] w)) = map formatEvent (eventsDb w b) \<and>
      events (app (run [SelectCity env b, Resolve 1, Resolve 0] w)) = map formatEvent (eventsDb w a))"
proof -
  have "events (app (step (Resolve k) w)) = map formatEvent (eventsDb w (inFlight w ! k)) \<and>
      selectedCity (app (step (Resolve k) w)) = selectedCity (app w)"
    if "k < length (inFlight w)"
    using that by (simp add: loadEvents_resolve_def Let_def)
  then show ?thesis
    using events_run [of ss w] stale_overwrite [of w a b env] by blast
qed

lemma mounted_facts:
  "user (app mounted) \<noteq> None" "\<not> loading (app mounted)" "selectedCity (app mounted) = chicago"
  "inFlight mounted = [chicago]" "eventsDb mounted = sampleDb" "events (app mounted) = []"
  by (simp_all add: mounted_def load_defs world_defs)

theorem C10_last_completion_wins_witness:
  "user (app mounted) \<noteq> None \<and> \<not> loading (app mounted) \<and> selectedCity (app mounted) = chicago \<and>
   inFlight mounted = [chicago] \<and> minneapolis \<noteq> chicago \<and>
   origin [SelectCity okEnv minneapolis, Resolve 1, Resolve 0] mounted None = Some chicago \<and>
   selectedCity (app (run [SelectCity okEnv minneapolis, Resolve 1, Resolve 0] mounted)) = minneapolis \<and>
   events (app (run [SelectCity okEnv minneapolis, Resolve 1] mounted)) = map formatEvent (sampleDb minneapolis) \<and>
   events (app (run [SelectCity okEnv minneapolis, Resolve 1, Resolve 0] mounted)) = map formatEvent (sampleDb chicago)"
proof -
  have o: "origin [SelectCity okEnv minneapolis, Resolve 1, Resolve 0] mounted None = Some chicago"
    by (simp add: mounted_facts load_defs Let_def dropAt_def)
  from C10_last_completion_wins [of "[SelectCity okEnv minneapolis, Resolve 1, Resolve 0]" mounted 0 chicago minneapolis okEnv]
  show ?thesis
    using o mounted_facts by simp
qed

text \<open>
  The claim as stated fails on this run: Minneapolis is selected and its catalog loaded,
  then the answer for Chicago arrives and takes its place.
\<close>

theorem C10_counterexample:
  "selectedCity (app (run [SelectCity okEnv minneapolis, Resolve 1] mounted)) = minneapolis \<and>
   events (app (run [SelectCity okEnv minneapolis, Resolve 1] mounted)) = map formatEvent (sampleDb minneapolis) \<and>
   inFlight (run [SelectCity okEnv minneapolis, Resolve 1] mounted) = [chicago] \<and>
   selectedCity (app (run [SelectCity okEnv minneapolis, Resolve 1, Resolve 0] mounted)) = minneapolis \<and>
   events (app (run [SelectCity okEnv minneapolis, Resolve 1, Resolve 0] mounted)) = map formatEvent (sampleDb chicago) \<and>
   map formatEvent (sampleDb chicago) \<noteq> map formatEvent (sampleDb minneapolis)"
  by (simp add: mounted_facts load_defs Let_def dropAt_def sampleDb_def formatEvent_def rawEvent_def)

end
